theory Spec2Isabelle
  imports Complex_Main "HOL-Library.Word" "HOL-Library.Sublist"
begin

unbundle bit_operations_syntax

section \<open>JavaScript values and the object heap\<close>

text \<open>
  The generator is TypeScript; its knowledge store is a tree of plain JavaScript objects
  that the caller owns and the evaluator reads through references.  Values are therefore
  modelled with an explicit heap: a primitive is a value, an object or an array is a
  reference into a list of heap cells, allocation appends a cell, and a property write
  replaces a cell.  Nothing in the model makes a caller's object immutable; that the
  evaluator leaves it alone is a theorem below.

  Numbers are IEEE doubles in the source.  The model keeps \<open>NaN\<close> and the two infinities
  and represents every finite double by the rational it denotes, with exact arithmetic:
  rounding, overflow of finite results and the sign of zero are outside the model.
  Strings are lists of 8-bit characters (the grammar language is ASCII).
  Objects have own properties only, in insertion order.
\<close>

datatype jsnum = Fin rat | NaN | PosInf | NegInf

datatype val = Undefined | Null | Bool bool | Num jsnum | Str string | Ref nat

datatype hobj = Object "(string \<times> val) list" | Array "val list"

type_synonym heap = "hobj list"

datatype error =
    EvaluationError string "string option"
  | ParseError string nat nat
  | TypeError string
  | Unmodelled string
  | OutOfFuel

text \<open>
  \<open>EvaluationError\<close> and \<open>ParseError\<close> are the two error classes of \<open>types.ts\<close>;
  \<open>TypeError\<close> is the JavaScript runtime's own exception.  \<open>Unmodelled\<close> marks the few
  places where the source leans on JavaScript behaviour this model does not cover
  (properties inherited from a prototype, writes to array cells); \<open>OutOfFuel\<close> is the
  evaluator's recursion bound running out.
\<close>

definition hget :: "heap \<Rightarrow> nat \<Rightarrow> hobj" where
  "hget h a = (if a < length h then h ! a else Object [])"

definition alloc :: "hobj \<Rightarrow> heap \<Rightarrow> nat \<times> heap" where
  "alloc ob h = (length h, h @ [ob])"

subsection \<open>Number arithmetic\<close>

fun num_neg :: "jsnum \<Rightarrow> jsnum" where
  "num_neg (Fin a) = Fin (- a)"
| "num_neg NaN = NaN"
| "num_neg PosInf = NegInf"
| "num_neg NegInf = PosInf"

fun num_add :: "jsnum \<Rightarrow> jsnum \<Rightarrow> jsnum" where
  "num_add (Fin a) (Fin b) = Fin (a + b)"
| "num_add NaN b = NaN"
| "num_add a NaN = NaN"
| "num_add PosInf NegInf = NaN"
| "num_add NegInf PosInf = NaN"
| "num_add PosInf b = PosInf"
| "num_add NegInf b = NegInf"
| "num_add (Fin a) b = b"

definition num_sub :: "jsnum \<Rightarrow> jsnum \<Rightarrow> jsnum" where
  "num_sub a b = num_add a (num_neg b)"

fun num_sign :: "jsnum \<Rightarrow> int" where
  "num_sign (Fin a) = (if a = 0 then 0 else if 0 < a then 1 else - 1)"
| "num_sign NaN = 0"
| "num_sign PosInf = 1"
| "num_sign NegInf = - 1"

fun num_mul :: "jsnum \<Rightarrow> jsnum \<Rightarrow> jsnum" where
  "num_mul (Fin a) (Fin b) = Fin (a * b)"
| "num_mul NaN b = NaN"
| "num_mul a NaN = NaN"
| "num_mul a b =
     (let s = num_sign a * num_sign b
      in if s = 0 then NaN else if 0 < s then PosInf else NegInf)"

fun num_div :: "jsnum \<Rightarrow> jsnum \<Rightarrow> jsnum" where
  "num_div (Fin a) (Fin b) =
     (if b \<noteq> 0 then Fin (a / b)
      else if a = 0 then NaN else if 0 < a then PosInf else NegInf)"
| "num_div NaN b = NaN"
| "num_div a NaN = NaN"
| "num_div (Fin a) b = Fin 0"
| "num_div a (Fin b) = (if 0 \<le> b then a else num_neg a)"
| "num_div a b = NaN"

text \<open>The comparison \<open>a < b\<close> on numbers; \<open>None\<close> is the "undefined" of a comparison with NaN.\<close>

fun num_lt :: "jsnum \<Rightarrow> jsnum \<Rightarrow> bool option" where
  "num_lt NaN b = None"
| "num_lt a NaN = None"
| "num_lt (Fin a) (Fin b) = Some (a < b)"
| "num_lt PosInf b = Some False"
| "num_lt a PosInf = Some True"
| "num_lt a NegInf = Some False"
| "num_lt NegInf b = Some True"

definition num_eq :: "jsnum \<Rightarrow> jsnum \<Rightarrow> bool" where
  "num_eq a b = (a \<noteq> NaN \<and> a = b)"

definition isNaN :: "jsnum \<Rightarrow> bool" where
  "isNaN n = (n = NaN)"

subsection \<open>Strings and numbers\<close>

definition newline :: char where
  "newline = CHR 0x0A"

definition is_ws :: "char \<Rightarrow> bool" where
  "is_ws c = ((of_char c :: nat) \<in> {9, 10, 11, 12, 13, 32, 160})"

definition trim :: "string \<Rightarrow> string" where
  "trim s = rev (dropWhile is_ws (rev (dropWhile is_ws s)))"

definition isDigit :: "char \<Rightarrow> bool" where
  "isDigit c = (CHR ''0'' = c \<or> CHR ''1'' = c \<or> CHR ''2'' = c \<or> CHR ''3'' = c \<or> CHR ''4'' = c
     \<or> CHR ''5'' = c \<or> CHR ''6'' = c \<or> CHR ''7'' = c \<or> CHR ''8'' = c \<or> CHR ''9'' = c)"

definition digit_val :: "char \<Rightarrow> nat" where
  "digit_val c = (of_char c :: nat) - 48"

definition digits_val :: "string \<Rightarrow> nat" where
  "digits_val s = foldl (\<lambda>a c. 10 * a + digit_val c) 0 s"

definition digit_char :: "nat \<Rightarrow> char" where
  "digit_char d = char_of (48 + d)"

fun nat_str :: "nat \<Rightarrow> string" where
  "nat_str n = (if n < 10 then [digit_char n] else nat_str (n div 10) @ [digit_char (n mod 10)])"

declare nat_str.simps [simp del]

fun frac_digits :: "nat \<Rightarrow> rat \<Rightarrow> string" where
  "frac_digits 0 r = []"
| "frac_digits (Suc k) r =
     (if r = 0 then []
      else let d = nat \<lfloor>r * 10\<rfloor> in digit_char d # frac_digits k (r * 10 - of_nat d))"

text \<open>
  \<open>Number.prototype.toString\<close>: exact on the integers (below \<open>10^21\<close> in magnitude, where
  JavaScript switches to exponent notation) and on decimals of at most twenty places.
\<close>

definition rat_str :: "rat \<Rightarrow> string" where
  "rat_str q =
     (let a = \<bar>q\<bar>; i = nat \<lfloor>a\<rfloor>; f = a - of_nat i
      in (if q < 0 then ''-'' else [])
         @ nat_str i @ (if f = 0 then [] else ''.'' @ frac_digits 20 f))"

fun num_str :: "jsnum \<Rightarrow> string" where
  "num_str (Fin q) = rat_str q"
| "num_str NaN = ''NaN''"
| "num_str PosInf = ''Infinity''"
| "num_str NegInf = ''-Infinity''"

text \<open>
  \<open>Number(s)\<close> on a string, the StringNumericLiteral grammar of the language standard:
  surrounding white space is dropped, the empty string is 0, then an optionally signed
  decimal with optional fraction and exponent, or \<open>Infinity\<close>, or an unsigned \<open>0x\<close>,
  \<open>0o\<close>, \<open>0b\<close> integer; anything else is NaN.
\<close>

definition pow10 :: "int \<Rightarrow> rat" where
  "pow10 e = (if 0 \<le> e then 10 ^ nat e else 1 / 10 ^ nat (- e))"

definition parse_exponent :: "string \<Rightarrow> int option" where
  "parse_exponent s =
     (case s of
        [] \<Rightarrow> Some 0
      | c # t \<Rightarrow>
          if c = CHR ''e'' \<or> c = CHR ''E'' then
            (case t of
               [] \<Rightarrow> None
             | d # u \<Rightarrow>
                 if d = CHR ''+'' \<and> u \<noteq> [] \<and> list_all isDigit u then Some (int (digits_val u))
                 else if d = CHR ''-'' \<and> u \<noteq> [] \<and> list_all isDigit u then Some (- int (digits_val u))
                 else if list_all isDigit t then Some (int (digits_val t))
                 else None)
          else None)"

definition parse_unsigned_decimal :: "string \<Rightarrow> jsnum" where
  "parse_unsigned_decimal s =
     (if s = ''Infinity'' then PosInf
      else
        let ip = takeWhile isDigit s; r1 = dropWhile isDigit s;
            has_dot = (r1 \<noteq> [] \<and> hd r1 = CHR ''.'');
            fp = (if has_dot then takeWhile isDigit (tl r1) else []);
            r2 = (if has_dot then dropWhile isDigit (tl r1) else r1)
        in if ip = [] \<and> fp = [] then NaN
           else (case parse_exponent r2 of
                   None \<Rightarrow> NaN
                 | Some e \<Rightarrow>
                     Fin ((of_nat (digits_val ip) + of_nat (digits_val fp) / 10 ^ length fp)
                          * pow10 e)))"

definition hex_val :: "char \<Rightarrow> nat option" where
  "hex_val c =
     (let n = (of_char c :: nat)
      in if 48 \<le> n \<and> n \<le> 57 then Some (n - 48)
         else if 97 \<le> n \<and> n \<le> 102 then Some (n - 87)
         else if 65 \<le> n \<and> n \<le> 70 then Some (n - 55)
         else None)"

definition parse_radix :: "nat \<Rightarrow> string \<Rightarrow> jsnum" where
  "parse_radix b s =
     (if s \<noteq> [] \<and> list_all (\<lambda>c. case hex_val c of None \<Rightarrow> False | Some d \<Rightarrow> d < b) s
      then Fin (of_nat (foldl (\<lambda>a c. b * a + the (hex_val c)) 0 s))
      else NaN)"

definition str_to_num :: "string \<Rightarrow> jsnum" where
  "str_to_num s0 =
     (let s = trim s0
      in if s = [] then Fin 0
         else if take 2 s = ''0x'' \<or> take 2 s = ''0X'' then parse_radix 16 (drop 2 s)
         else if take 2 s = ''0o'' \<or> take 2 s = ''0O'' then parse_radix 8 (drop 2 s)
         else if take 2 s = ''0b'' \<or> take 2 s = ''0B'' then parse_radix 2 (drop 2 s)
         else if hd s = CHR ''+'' then parse_unsigned_decimal (tl s)
         else if hd s = CHR ''-'' then num_neg (parse_unsigned_decimal (tl s))
         else parse_unsigned_decimal s)"

subsection \<open>Conversions\<close>

fun join :: "string \<Rightarrow> string list \<Rightarrow> string" where
  "join sep [] = []"
| "join sep [x] = x"
| "join sep (x # y # ys) = x @ sep @ join sep (y # ys)"

text \<open>
  \<open>String(v)\<close>.  A plain object prints as \<open>[object Object]\<close>; an array prints its elements
  joined by commas, with \<open>undefined\<close> and \<open>null\<close> elements empty.  \<open>stk\<close> holds the arrays
  being joined: an array that contains itself prints as the empty string there.
\<close>

function js_string :: "heap \<Rightarrow> nat list \<Rightarrow> val \<Rightarrow> string" where
  "js_string h stk Undefined = ''undefined''"
| "js_string h stk Null = ''null''"
| "js_string h stk (Bool b) = (if b then ''true'' else ''false'')"
| "js_string h stk (Num n) = num_str n"
| "js_string h stk (Str s) = s"
| "js_string h stk (Ref a) =
     (if a \<in> set stk \<or> \<not> a < length h then
        (case hget h a of Object fs \<Rightarrow> ''[object Object]'' | Array vs \<Rightarrow> [])
      else
        (case hget h a of
           Object fs \<Rightarrow> ''[object Object]''
         | Array vs \<Rightarrow>
             join '',''
               (map (\<lambda>v. if v = Undefined \<or> v = Null then [] else js_string h (a # stk) v) vs)))"
  by pat_completeness auto
termination
proof (relation "measure (\<lambda>(h, stk, v). card ({..<length h} - set stk))")
  show "wf (measure (\<lambda>(h, stk, v). card ({..<length h} - set stk)))"
    by simp
next
  fix h :: heap and stk :: "nat list" and a :: nat and vs :: "val list" and v :: val
  assume "\<not> (a \<in> set stk \<or> \<not> a < length h)"
  then have "{..<length h} - set (a # stk) \<subset> {..<length h} - set stk"
    by auto
  then have "card ({..<length h} - set (a # stk)) < card ({..<length h} - set stk)"
    by (intro psubset_card_mono) simp_all
  then show "((h, a # stk, v), (h, stk, Ref a))
      \<in> measure (\<lambda>(h, stk, v). card ({..<length h} - set stk))"
    by simp
qed

definition js_String :: "heap \<Rightarrow> val \<Rightarrow> string" where
  "js_String h v = js_string h [] v"

definition js_Number :: "heap \<Rightarrow> val \<Rightarrow> jsnum" where
  "js_Number h v =
     (case v of
        Undefined \<Rightarrow> NaN
      | Null \<Rightarrow> Fin 0
      | Bool b \<Rightarrow> Fin (if b then 1 else 0)
      | Num n \<Rightarrow> n
      | Str s \<Rightarrow> str_to_num s
      | Ref a \<Rightarrow> str_to_num (js_String h v))"

definition js_truthy :: "val \<Rightarrow> bool" where
  "js_truthy v =
     (case v of
        Undefined \<Rightarrow> False
      | Null \<Rightarrow> False
      | Bool b \<Rightarrow> b
      | Num n \<Rightarrow> n \<noteq> NaN \<and> n \<noteq> Fin 0
      | Str s \<Rightarrow> s \<noteq> []
      | Ref a \<Rightarrow> True)"

definition js_typeof :: "val \<Rightarrow> string" where
  "js_typeof v =
     (case v of
        Undefined \<Rightarrow> ''undefined''
      | Null \<Rightarrow> ''object''
      | Bool b \<Rightarrow> ''boolean''
      | Num n \<Rightarrow> ''number''
      | Str s \<Rightarrow> ''string''
      | Ref a \<Rightarrow> ''object'')"

definition is_Str :: "val \<Rightarrow> bool" where
  "is_Str v = (case v of Str s \<Rightarrow> True | _ \<Rightarrow> False)"

definition is_Num :: "val \<Rightarrow> bool" where
  "is_Num v = (case v of Num n \<Rightarrow> True | _ \<Rightarrow> False)"

definition to_primitive :: "heap \<Rightarrow> val \<Rightarrow> val" where
  "to_primitive h v = (case v of Ref a \<Rightarrow> Str (js_String h v) | _ \<Rightarrow> v)"

text \<open>The operators \<open>+ - * /\<close> of the language on arbitrary values.\<close>

definition js_plus :: "heap \<Rightarrow> val \<Rightarrow> val \<Rightarrow> val" where
  "js_plus h a b =
     (let pa = to_primitive h a; pb = to_primitive h b
      in if is_Str pa \<or> is_Str pb then Str (js_String h pa @ js_String h pb)
         else Num (num_add (js_Number h pa) (js_Number h pb)))"

definition js_minus :: "heap \<Rightarrow> val \<Rightarrow> val \<Rightarrow> val" where
  "js_minus h a b = Num (num_sub (js_Number h a) (js_Number h b))"

definition js_times :: "heap \<Rightarrow> val \<Rightarrow> val \<Rightarrow> val" where
  "js_times h a b = Num (num_mul (js_Number h a) (js_Number h b))"

definition js_divide :: "heap \<Rightarrow> val \<Rightarrow> val \<Rightarrow> val" where
  "js_divide h a b = Num (num_div (js_Number h a) (js_Number h b))"

fun str_less :: "string \<Rightarrow> string \<Rightarrow> bool" where
  "str_less [] [] = False"
| "str_less [] (y # ys) = True"
| "str_less (x # xs) [] = False"
| "str_less (x # xs) (y # ys) =
     ((of_char x :: nat) < of_char y \<or> (x = y \<and> str_less xs ys))"

text \<open>The relational comparison \<open>a < b\<close>; \<open>None\<close> when a side is NaN.\<close>

definition js_less :: "heap \<Rightarrow> val \<Rightarrow> val \<Rightarrow> bool option" where
  "js_less h a b =
     (case (to_primitive h a, to_primitive h b) of
        (Str s, Str t) \<Rightarrow> Some (str_less s t)
      | (pa, pb) \<Rightarrow> num_lt (js_Number h pa) (js_Number h pb))"

text \<open>
  Loose equality \<open>a == b\<close>: \<open>undefined\<close> and \<open>null\<close> equal each other and nothing else,
  a boolean compares as its number, two objects compare by identity, an object against
  a primitive compares as its string, and a number against a string compares numerically.
\<close>

definition prim_eq :: "val \<Rightarrow> val \<Rightarrow> bool" where
  "prim_eq a b =
     (case (a, b) of
        (Num m, Num n) \<Rightarrow> num_eq m n
      | (Str s, Str t) \<Rightarrow> s = t
      | (Num m, Str t) \<Rightarrow> num_eq m (str_to_num t)
      | (Str s, Num n) \<Rightarrow> num_eq (str_to_num s) n
      | _ \<Rightarrow> False)"

definition bool_to_num :: "val \<Rightarrow> val" where
  "bool_to_num v = (case v of Bool b \<Rightarrow> Num (Fin (if b then 1 else 0)) | _ \<Rightarrow> v)"

definition is_nullish :: "val \<Rightarrow> bool" where
  "is_nullish v = (v = Undefined \<or> v = Null)"

definition js_loose_eq :: "heap \<Rightarrow> val \<Rightarrow> val \<Rightarrow> bool" where
  "js_loose_eq h a b =
     (if is_nullish a \<or> is_nullish b then is_nullish a \<and> is_nullish b
      else
        (case (bool_to_num a, bool_to_num b) of
           (Ref x, Ref y) \<Rightarrow> x = y
         | (a', b') \<Rightarrow> prim_eq (to_primitive h a') (to_primitive h b')))"

subsection \<open>Properties of objects\<close>

text \<open>
  Objects of the model have own properties only.  A property name that every JavaScript
  object inherits from \<open>Object.prototype\<close> would be found by \<open>in\<close> and by a property read
  although no one stored it; the model answers \<open>Unmodelled\<close> for those names instead of
  inventing a value.  Arrays answer for \<open>length\<close> and their indices.
\<close>

definition proto_names :: "string list" where
  "proto_names =
     [''constructor'', ''hasOwnProperty'', ''isPrototypeOf'', ''propertyIsEnumerable'',
      ''toLocaleString'', ''toString'', ''valueOf'', ''__proto__'', ''__defineGetter__'',
      ''__defineSetter__'', ''__lookupGetter__'', ''__lookupSetter__'']"

definition quoted :: "string \<Rightarrow> string" where
  "quoted s = [CHR 0x27] @ s @ [CHR 0x27]"

definition array_index :: "string \<Rightarrow> nat option" where
  "array_index key =
     (if key \<noteq> [] \<and> list_all isDigit key \<and> nat_str (digits_val key) = key
      then Some (digits_val key) else None)"

definition js_in :: "heap \<Rightarrow> string \<Rightarrow> val \<Rightarrow> error + bool" where
  "js_in h key v =
     (case v of
        Ref a \<Rightarrow>
          (case hget h a of
             Object fs \<Rightarrow>
               if map_of fs key \<noteq> None then Inr True
               else if key \<in> set proto_names then Inl (Unmodelled key)
               else Inr False
           | Array vs \<Rightarrow>
               if key = ''length'' then Inr True
               else (case array_index key of
                       Some i \<Rightarrow> Inr (i < length vs)
                     | None \<Rightarrow> Inl (Unmodelled key)))
      | _ \<Rightarrow>
          Inl (TypeError (''Cannot use '' @ quoted ''in'' @ '' operator to search for ''
                          @ quoted key @ '' in '' @ js_String h v)))"

definition js_get :: "heap \<Rightarrow> val \<Rightarrow> string \<Rightarrow> error + val" where
  "js_get h v key =
     (case v of
        Ref a \<Rightarrow>
          (case hget h a of
             Object fs \<Rightarrow>
               (case map_of fs key of
                  Some x \<Rightarrow> Inr x
                | None \<Rightarrow> if key \<in> set proto_names then Inl (Unmodelled key) else Inr Undefined)
           | Array vs \<Rightarrow>
               if key = ''length'' then Inr (Num (Fin (of_nat (length vs))))
               else (case array_index key of
                       Some i \<Rightarrow> Inr (if i < length vs then vs ! i else Undefined)
                     | None \<Rightarrow> Inl (Unmodelled key)))
      | Undefined \<Rightarrow>
          Inl (TypeError (''Cannot read properties of undefined (reading '' @ quoted key @ '')''))
      | Null \<Rightarrow>
          Inl (TypeError (''Cannot read properties of null (reading '' @ quoted key @ '')''))
      | _ \<Rightarrow> Inl (Unmodelled key))"

text \<open>
  Objects and \<open>Map\<close>s keep their entries in insertion order: a write to an existing key
  replaces the value in place, a write to a new key appends an entry.
\<close>

fun alist_set :: "'k \<Rightarrow> 'v \<Rightarrow> ('k \<times> 'v) list \<Rightarrow> ('k \<times> 'v) list" where
  "alist_set key x [] = [(key, x)]"
| "alist_set key x ((k, v) # fs) =
     (if k = key then (k, x) # fs else (k, v) # alist_set key x fs)"

text \<open>
  The assignment \<open>v[key] = x\<close>.  The library is an ES module, hence strict code: a write
  to a property of a primitive raises a \<open>TypeError\<close>.
\<close>

definition js_set :: "heap \<Rightarrow> val \<Rightarrow> string \<Rightarrow> val \<Rightarrow> error + heap" where
  "js_set h v key x =
     (case v of
        Ref a \<Rightarrow>
          (case hget h a of
             Object fs \<Rightarrow>
               if key = ''__proto__'' then Inl (Unmodelled key)
               else Inr (h[a := Object (alist_set key x fs)])
           | Array vs \<Rightarrow> Inl (Unmodelled key))
      | Undefined \<Rightarrow>
          Inl (TypeError (''Cannot set properties of undefined (setting '' @ quoted key @ '')''))
      | Null \<Rightarrow>
          Inl (TypeError (''Cannot set properties of null (setting '' @ quoted key @ '')''))
      | _ \<Rightarrow>
          Inl (TypeError (''Cannot create property '' @ quoted key @ '' on '' @ js_typeof v
                          @ '' '' @ quoted (js_String h v))))"

text \<open>\<open>Object.keys(v)\<close> for a value whose \<open>typeof\<close> is \<open>object\<close> and that is not \<open>null\<close>.\<close>

definition object_keys :: "heap \<Rightarrow> val \<Rightarrow> string list" where
  "object_keys h v =
     (case v of
        Ref a \<Rightarrow>
          (case hget h a of
             Object fs \<Rightarrow> map fst fs
           | Array vs \<Rightarrow> map nat_str [0..<length vs])
      | _ \<Rightarrow> [])"

text \<open>
  The own enumerable properties that an object spread \<open>{...v}\<close> copies: the fields of an
  object, the indexed elements of an array, the characters of a string, nothing for the
  other primitives.
\<close>

definition spread_fields :: "heap \<Rightarrow> val \<Rightarrow> (string \<times> val) list" where
  "spread_fields h v =
     (case v of
        Ref a \<Rightarrow>
          (case hget h a of
             Object fs \<Rightarrow> fs
           | Array vs \<Rightarrow> zip (map nat_str [0..<length vs]) vs)
      | Str s \<Rightarrow> zip (map nat_str [0..<length s]) (map (\<lambda>c. Str [c]) s)
      | _ \<Rightarrow> [])"

text \<open>An object literal made of spreads only, \<open>{...a, ...b}\<close>: a fresh object.\<close>

definition object_spread :: "heap \<Rightarrow> val list \<Rightarrow> val \<times> heap" where
  "object_spread h sources =
     (let fs = foldl (\<lambda>acc (k, x). alist_set k x acc) [] (concat (map (spread_fields h) sources));
          (r, h') = alloc (Object fs) h
      in (Ref r, h'))"

subsection \<open>The deep clone \<open>JSON.parse(JSON.stringify(v))\<close>\<close>

datatype tree =
    TNull | TBool bool | TNum rat | TStr string
  | TObj "(string \<times> tree) list" | TArr "tree list"

fun first_error :: "(error + 'a) list \<Rightarrow> error option" where
  "first_error [] = None"
| "first_error (Inl e # rs) = Some e"
| "first_error (Inr x # rs) = first_error rs"

fun projr_default :: "'a \<Rightarrow> error + 'a \<Rightarrow> 'a" where
  "projr_default d (Inl e) = d"
| "projr_default d (Inr x) = x"

text \<open>
  \<open>JSON.stringify\<close> reads the object graph: a property whose value is \<open>undefined\<close> is
  dropped, an \<open>undefined\<close> array element and a number that is not finite become \<open>null\<close>,
  and an object that contains itself raises a \<open>TypeError\<close>.  \<open>stk\<close> is the stack of objects
  being written.  The result \<open>None\<close> is the \<open>undefined\<close> that \<open>JSON.stringify\<close> returns.
\<close>

function json_read :: "heap \<Rightarrow> nat list \<Rightarrow> val \<Rightarrow> error + tree option" where
  "json_read h stk Undefined = Inr None"
| "json_read h stk Null = Inr (Some TNull)"
| "json_read h stk (Bool b) = Inr (Some (TBool b))"
| "json_read h stk (Num n) = Inr (Some (case n of Fin q \<Rightarrow> TNum q | _ \<Rightarrow> TNull))"
| "json_read h stk (Str s) = Inr (Some (TStr s))"
| "json_read h stk (Ref a) =
     (if a \<in> set stk then Inl (TypeError ''Converting circular structure to JSON'')
      else if \<not> a < length h then Inr (Some (TObj []))
      else
        (case hget h a of
           Object fs \<Rightarrow>
             (let rs = map (\<lambda>(k, v). (k, json_read h (a # stk) v)) fs
              in case first_error (map snd rs) of
                   Some e \<Rightarrow> Inl e
                 | None \<Rightarrow>
                     Inr (Some (TObj (concat (map (\<lambda>(k, r).
                       case projr_default None r of None \<Rightarrow> [] | Some t \<Rightarrow> [(k, t)]) rs)))))
         | Array vs \<Rightarrow>
             (let rs = map (\<lambda>v. json_read h (a # stk) v) vs
              in case first_error rs of
                   Some e \<Rightarrow> Inl e
                 | None \<Rightarrow>
                     Inr (Some (TArr (map (\<lambda>r.
                       case projr_default None r of None \<Rightarrow> TNull | Some t \<Rightarrow> t) rs))))))"
  by pat_completeness auto
termination
proof (relation "measure (\<lambda>(h, stk, v). card ({..<length h} - set stk))")
  show "wf (measure (\<lambda>(h, stk, v). card ({..<length h} - set stk)))"
    by simp
next
  fix h :: heap and stk :: "nat list" and a :: nat
  assume "a \<notin> set stk" and "\<not> \<not> a < length h"
  then have "{..<length h} - set (a # stk) \<subset> {..<length h} - set stk"
    by auto
  then have less: "card ({..<length h} - set (a # stk)) < card ({..<length h} - set stk)"
    by (intro psubset_card_mono) simp_all
  {
    fix v :: val
    show "((h, a # stk, v), (h, stk, Ref a))
        \<in> measure (\<lambda>(h, stk, v). card ({..<length h} - set stk))"
      using less by simp
  }
  {
    fix v :: val
    show "((h, a # stk, v), (h, stk, Ref a))
        \<in> measure (\<lambda>(h, stk, v). card ({..<length h} - set stk))"
      using less by simp
  }
qed

text \<open>\<open>JSON.parse\<close> builds fresh objects, children before their parent.\<close>

fun alloc_tree :: "tree \<Rightarrow> heap \<Rightarrow> val \<times> heap"
  and alloc_fields :: "(string \<times> tree) list \<Rightarrow> heap \<Rightarrow> (string \<times> val) list \<times> heap"
  and alloc_elems :: "tree list \<Rightarrow> heap \<Rightarrow> val list \<times> heap" where
  "alloc_tree TNull h = (Null, h)"
| "alloc_tree (TBool b) h = (Bool b, h)"
| "alloc_tree (TNum q) h = (Num (Fin q), h)"
| "alloc_tree (TStr s) h = (Str s, h)"
| "alloc_tree (TObj fs) h =
     (let (vs, h1) = alloc_fields fs h; (r, h2) = alloc (Object vs) h1 in (Ref r, h2))"
| "alloc_tree (TArr ts) h =
     (let (vs, h1) = alloc_elems ts h; (r, h2) = alloc (Array vs) h1 in (Ref r, h2))"
| "alloc_fields [] h = ([], h)"
| "alloc_fields ((k, t) # fs) h =
     (let (v, h1) = alloc_tree t h; (vs, h2) = alloc_fields fs h1 in ((k, v) # vs, h2))"
| "alloc_elems [] h = ([], h)"
| "alloc_elems (t # ts) h =
     (let (v, h1) = alloc_tree t h; (vs, h2) = alloc_elems ts h1 in (v # vs, h2))"

definition json_clone :: "heap \<Rightarrow> val \<Rightarrow> error + val \<times> heap" where
  "json_clone h v =
     (case json_read h [] v of
        Inl e \<Rightarrow> Inl e
      | Inr None \<Rightarrow> Inl (TypeError ''undefined is not valid JSON'')
      | Inr (Some t) \<Rightarrow> Inr (alloc_tree t h))"

section \<open>The seeded random source (\<open>generator.ts\<close>)\<close>

text \<open>
  \<open>createSeededRandom\<close> keeps a number \<open>state\<close> in a closure.  All values involved are
  integers; a product or sum that leaves the 53-bit range of a double is rounded to the
  nearest representable integer (ties to even), which \<open>round53\<close> computes, and \<open>>>> 0\<close>
  reduces modulo \<open>2^32\<close>.  The exclusive-or works on 32-bit words.
\<close>

function bit_length :: "int \<Rightarrow> nat" where
  "bit_length x = (if x \<le> 0 then 0 else Suc (bit_length (x div 2)))"
  by pat_completeness auto
termination
  by (relation "measure nat") auto

declare bit_length.simps [simp del]

definition round53 :: "int \<Rightarrow> int" where
  "round53 x =
     (let a = \<bar>x\<bar>; l = bit_length a
      in if l \<le> 53 then x
         else
           let k = l - 53; q = a div 2 ^ k; r = a mod 2 ^ k; half = 2 ^ (k - 1);
               q' = (if half < r \<or> (r = half \<and> odd q) then q + 1 else q)
           in sgn x * (q' * 2 ^ k))"

definition seed_state :: "int \<Rightarrow> int" where
  "seed_state seed = round53 (round53 (seed * 1664525) + 1013904223)"

definition lcg_step :: "int \<Rightarrow> int" where
  "lcg_step state = round53 (round53 (state * 747796405) + 2891336453) mod 2 ^ 32"

definition lcg_output :: "int \<Rightarrow> int" where
  "lcg_output state =
     (let shifted = state div 2 ^ nat (state div 2 ^ 28 + 4);
          x = sint ((word_of_int shifted :: 32 word) XOR word_of_int state);
          w = round53 (x * 277803737)
      in uint ((word_of_int w :: 32 word) XOR word_of_int ((w mod 2 ^ 32) div 2 ^ 22)))"

text \<open>
  Without a seed the source is \<open>Math.random\<close>, which the model reads from an arbitrary
  stream of the environment; \<open>frac\<close> takes each of its numbers into the interval from 0
  (inclusive) to 1 (exclusive).
\<close>

datatype rng = Seeded int | Unseeded "nat \<Rightarrow> rat" nat

fun rng_next :: "rng \<Rightarrow> rat \<times> rng" where
  "rng_next (Seeded state) =
     (let s = lcg_step state in (of_int (lcg_output s) / 4294967296, Seeded s))"
| "rng_next (Unseeded f i) = (frac (f i), Unseeded f (Suc i))"

section \<open>The syntax tree (\<open>ast/nodes.ts\<close>)\<close>

datatype assign_op = Assign | PlusAssign | MinusAssign

datatype binop =
    Plus | Minus | Multiply | Divide
  | Equals | NotEquals | LessThan | GreaterThan | LessEqual | GreaterEqual

datatype varref = VarRef (path: "string list") (isKnowledge: bool)

datatype node =
    Literal val
  | RuleReference string
  | VariableReference varref
  | Assignment varref assign_op node
  | BinaryExpression node binop node
  | ConditionalExpression node node "node option"
  | SilentExpression node
  | CompoundExpression "node list"

datatype alternative = Alternative (elements: "node list") (weight: rat)

datatype rule = Rule (name: string) (alternatives: "alternative list")

type_synonym grammar = "(string \<times> rule) list"

text \<open>
  An execution context holds the knowledge snapshot, the variable map, the random source
  and the grammar.  The snapshot and the grammar are passed down as arguments.  The map
  and the closure of the random source are mutable objects shared by reference, and so
  are the heap cells: every evaluation function takes their state and returns it.  The
  \<open>variables\<close> component of a result is the state, after the call, of the map object
  that the call received in its context.
\<close>

type_synonym variables = "(string \<times> val) list"

text \<open>
  \<open>for (const [key, value] of source.entries()) target.set(key, value)\<close>, the loop by
  which the evaluator copies one variable map into another.
\<close>

definition copy_entries :: "variables \<Rightarrow> variables \<Rightarrow> variables" where
  "copy_entries source target = foldl (\<lambda>m (key, v). alist_set key v m) target source"

record world =
  heap :: heap
  entropy :: rng

type_synonym evaluation = "error + (val \<times> val \<times> variables \<times> world)"

definition draw :: "world \<Rightarrow> rat \<times> world" where
  "draw w = (let (r, g) = rng_next (entropy w) in (r, w\<lparr>entropy := g\<rparr>))"

subsection \<open>Helpers of the evaluator that do not recurse\<close>

definition starts_with_any :: "string \<Rightarrow> string \<Rightarrow> bool" where
  "starts_with_any cs s = (s \<noteq> [] \<and> hd s \<in> set cs)"

definition ends_with :: "char \<Rightarrow> string \<Rightarrow> bool" where
  "ends_with c s = (s \<noteq> [] \<and> last s = c)"

text \<open>
  The test \<open>typeof v === 'string' && !isNaN(Number(v)) && v.trim() !== ''\<close> followed by
  \<open>Number(v)\<close>, which \<open>VariableReference\<close> and \<open>RuleReference\<close> apply to a variable they read.
\<close>

definition coerce_numeric_string :: "val \<Rightarrow> val" where
  "coerce_numeric_string v =
     (case v of
        Str s \<Rightarrow> if \<not> isNaN (str_to_num s) \<and> trim s \<noteq> [] then Num (str_to_num s) else v
      | _ \<Rightarrow> v)"

definition trim_if_string :: "val \<Rightarrow> val" where
  "trim_if_string v = (case v of Str s \<Rightarrow> Str (trim s) | _ \<Rightarrow> v)"

definition varref_toString :: "varref \<Rightarrow> string" where
  "varref_toString r =
     (if isKnowledge r then ''$$.'' @ join ''.'' (tl (path r)) else ''$'' @ join ''.'' (path r))"

text \<open>The message of an error, as the constructors of \<open>types.ts\<close> build it.\<close>

fun error_message :: "error \<Rightarrow> string" where
  "error_message (EvaluationError m None) = ''Evaluation error: '' @ m"
| "error_message (EvaluationError m (Some p)) = ''Evaluation error at '' @ p @ '': '' @ m"
| "error_message (ParseError m l c) =
     ''Parse error at line '' @ nat_str l @ '', column '' @ nat_str c @ '': '' @ m"
| "error_message (TypeError m) = m"
| "error_message (Unmodelled m) = m"
| "error_message OutOfFuel = ''Maximum call stack size exceeded''"

text \<open>
  \<open>VariableReference.evaluate\<close> catches whatever its two helpers throw and throws an
  \<open>EvaluationError\<close> with the reference's text as path.
\<close>

fun wrap_error :: "varref \<Rightarrow> error \<Rightarrow> error" where
  "wrap_error r OutOfFuel = OutOfFuel"
| "wrap_error r (Unmodelled m) = Unmodelled m"
| "wrap_error r e =
     EvaluationError (''Failed to resolve variable '' @ varref_toString r @ '': '' @ error_message e)
       (Some (varref_toString r))"

text \<open>\<open>item && typeof item === 'object' && key in item\<close>\<close>

definition has_property :: "heap \<Rightarrow> val \<Rightarrow> string \<Rightarrow> bool" where
  "has_property h item key =
     (case item of
        Ref a \<Rightarrow> (case js_in h key item of Inr b \<Rightarrow> b | Inl e \<Rightarrow> False)
      | _ \<Rightarrow> False)"

definition item_weight :: "heap \<Rightarrow> val \<Rightarrow> val" where
  "item_weight h item =
     (if has_property h item ''weight''
      then projr_default Undefined (js_get h item ''weight'') else Num (Fin 1))"

definition item_value :: "heap \<Rightarrow> val \<Rightarrow> val" where
  "item_value h item =
     (if has_property h item ''value''
      then projr_default Undefined (js_get h item ''value'') else item)"

fun pick_item :: "heap \<Rightarrow> val \<Rightarrow> val \<Rightarrow> val list \<Rightarrow> val option" where
  "pick_item h random currentWeight [] = None"
| "pick_item h random currentWeight (item # items) =
     (let cw = js_plus h currentWeight (item_weight h item)
      in if js_less h cw random = Some False then Some (item_value h item)
         else pick_item h random cw items)"

definition selectFromArray :: "val list \<Rightarrow> world \<Rightarrow> val \<times> world" where
  "selectFromArray array w =
     (if array = [] then (Str [], w)
      else
        let h = heap w;
            hasWeights = list_ex (\<lambda>item. has_property h item ''weight'') array;
            totalWeight = foldl (\<lambda>sum item. js_plus h sum (item_weight h item)) (Num (Fin 0)) array;
            (r, w1) = (if hasWeights then draw w else (0, w));
            picked = (if hasWeights
                      then pick_item h (js_times h (Num (Fin r)) totalWeight) (Num (Fin 0)) array
                      else None)
        in case picked of
             Some v \<Rightarrow> (v, w1)
           | None \<Rightarrow>
               let (r2, w2) = draw w1;
                   i = nat \<lfloor>r2 * of_nat (length array)\<rfloor>;
                   selected = (if i < length array then array ! i else Undefined)
               in (item_value h selected, w2))"

fun walk_knowledge :: "heap \<Rightarrow> string list \<Rightarrow> val \<Rightarrow> string list \<Rightarrow> error + val" where
  "walk_knowledge h [] current resolvedPath = Inr current"
| "walk_knowledge h (part # parts) current resolvedPath =
     (if current = Null \<or> current = Undefined then
        Inl (EvaluationError
          (''Cannot access property '' @ quoted part @ '' of '' @ js_String h current) None)
      else
        (case (if js_typeof current \<noteq> ''object'' then Inr False else js_in h part current) of
           Inl e \<Rightarrow> Inl e
         | Inr False \<Rightarrow>
             Inl (EvaluationError
               (''Property '' @ quoted part @ '' not found at '' @ join ''.'' resolvedPath
                @ ''. Available: ['' @ join '', '' (object_keys h current) @ '']'') None)
         | Inr True \<Rightarrow>
             (case js_get h current part of
                Inl e \<Rightarrow> Inl e
              | Inr v \<Rightarrow> walk_knowledge h parts v (resolvedPath @ [part]))))"

definition evaluateKnowledgePath :: "varref \<Rightarrow> val \<Rightarrow> variables \<Rightarrow> world \<Rightarrow> evaluation" where
  "evaluateKnowledgePath r k vars w =
     (case path r of
        [] \<Rightarrow> Inl (EvaluationError
                (''Expected '' @ quoted ''$$'' @ '' but got '' @ quoted ''undefined'') None)
      | root0 # pathParts \<Rightarrow>
          if root0 \<noteq> ''$'' then
            Inl (EvaluationError (''Expected '' @ quoted ''$$'' @ '' but got '' @ quoted root0) None)
          else
            (case walk_knowledge (heap w) pathParts k [''$$''] of
               Inl e \<Rightarrow> Inl e
             | Inr current \<Rightarrow>
                 (case current of
                    Ref a \<Rightarrow>
                      (case hget (heap w) a of
                         Array vs \<Rightarrow> (let (v, w') = selectFromArray vs w in Inr (v, k, vars, w'))
                       | Object fs \<Rightarrow> Inr (current, k, vars, w))
                  | _ \<Rightarrow> Inr (current, k, vars, w))))"

fun walk_variable :: "heap \<Rightarrow> val \<Rightarrow> string list \<Rightarrow> error + val" where
  "walk_variable h v [] = Inr v"
| "walk_variable h v (p # ps) =
     (if v = Null \<or> v = Undefined \<or> js_typeof v \<noteq> ''object'' then
        Inl (EvaluationError
          (''Cannot access property '' @ quoted p @ '' of '' @ js_String h v) None)
      else
        (case js_get h v p of
           Inl e \<Rightarrow> Inl e
         | Inr x \<Rightarrow> walk_variable h x ps))"

text \<open>The loop of \<open>assignToKnowledge\<close> that walks to the parent of the target property.\<close>

fun navigate :: "heap \<Rightarrow> val \<Rightarrow> string list \<Rightarrow> error + val \<times> heap" where
  "navigate h current [] = Inr (current, h)"
| "navigate h current (part # parts) =
     (case js_in h part current of
        Inl e \<Rightarrow> Inl e
      | Inr present \<Rightarrow>
          (case (if present then Inr h
                 else (let (r, h1) = alloc (Object []) h in js_set h1 current part (Ref r))) of
             Inl e \<Rightarrow> Inl e
           | Inr h2 \<Rightarrow>
               (case js_get h2 current part of
                  Inl e \<Rightarrow> Inl e
                | Inr next_current \<Rightarrow> navigate h2 next_current parts)))"

definition or_zero :: "val \<Rightarrow> val" where
  "or_zero v = (if js_truthy v then v else Num (Fin 0))"

definition assignToKnowledge ::
  "varref \<Rightarrow> assign_op \<Rightarrow> val \<Rightarrow> val \<Rightarrow> variables \<Rightarrow> world \<Rightarrow> evaluation" where
  "assignToKnowledge tgt operator k v vars w =
     (if path tgt = [] \<or> hd (path tgt) \<noteq> ''$'' then
        Inl (EvaluationError ''Knowledge assignment must start with $$'' None)
      else
        let pathParts = tl (path tgt) in
        (case json_clone (heap w) k of
           Inl e \<Rightarrow> Inl e
         | Inr (newKnowledge, h1) \<Rightarrow>
             (case navigate h1 newKnowledge (butlast pathParts) of
                Inl e \<Rightarrow> Inl e
              | Inr (current, h2) \<Rightarrow>
                  let finalProp = (if pathParts = [] then ''undefined'' else last pathParts) in
                  (case operator of
                     Assign \<Rightarrow>
                       (case js_set h2 current finalProp
                               (if is_Str v \<and> \<not> isNaN (js_Number h2 v)
                                then Num (js_Number h2 v) else v) of
                          Inl e \<Rightarrow> Inl e
                        | Inr h3 \<Rightarrow> Inr (v, newKnowledge, vars, w\<lparr>heap := h3\<rparr>))
                   | PlusAssign \<Rightarrow>
                       (case js_get h2 current finalProp of
                          Inl e \<Rightarrow> Inl e
                        | Inr c \<Rightarrow>
                            let currentAddValue = or_zero c;
                                resultValue =
                                  (if \<not> isNaN (js_Number h2 currentAddValue) \<and> \<not> isNaN (js_Number h2 v)
                                   then Num (num_add (js_Number h2 currentAddValue) (js_Number h2 v))
                                   else js_plus h2 currentAddValue v)
                            in (case js_set h2 current finalProp resultValue of
                                  Inl e \<Rightarrow> Inl e
                                | Inr h3 \<Rightarrow> Inr (resultValue, newKnowledge, vars, w\<lparr>heap := h3\<rparr>)))
                   | MinusAssign \<Rightarrow>
                       (case js_get h2 current finalProp of
                          Inl e \<Rightarrow> Inl e
                        | Inr c \<Rightarrow>
                            let currentSubValue = or_zero c
                            in if \<not> isNaN (js_Number h2 currentSubValue) \<and> \<not> isNaN (js_Number h2 v)
                               then
                                 (let resultValue =
                                        Num (num_sub (js_Number h2 currentSubValue) (js_Number h2 v))
                                  in case js_set h2 current finalProp resultValue of
                                       Inl e \<Rightarrow> Inl e
                                     | Inr h3 \<Rightarrow>
                                         Inr (resultValue, newKnowledge, vars, w\<lparr>heap := h3\<rparr>))
                               else
                                 Inl (EvaluationError
                                   ''Subtraction is only valid for numeric values'' None))))))"

definition assignToVariable ::
  "varref \<Rightarrow> assign_op \<Rightarrow> val \<Rightarrow> val \<Rightarrow> variables \<Rightarrow> world \<Rightarrow> evaluation" where
  "assignToVariable tgt operator k v vars w =
     (case path tgt of
        [] \<Rightarrow> Inl (Unmodelled ''empty variable path'')
      | varName # rest \<Rightarrow>
          (case operator of
             Assign \<Rightarrow> Inr (v, k, alist_set varName v vars, w)
           | PlusAssign \<Rightarrow>
               (let currentValue = or_zero (case map_of vars varName of None \<Rightarrow> Undefined | Some c \<Rightarrow> c);
                    resultValue = js_plus (heap w) currentValue v
                in Inr (resultValue, k, alist_set varName resultValue vars, w))
           | MinusAssign \<Rightarrow>
               (let currentVal = or_zero (case map_of vars varName of None \<Rightarrow> Undefined | Some c \<Rightarrow> c);
                    resultValue = js_minus (heap w) currentVal v
                in Inr (resultValue, k, alist_set varName resultValue vars, w))))"

definition numeric_if_string :: "heap \<Rightarrow> val \<Rightarrow> val" where
  "numeric_if_string h v =
     (if is_Str v \<and> \<not> isNaN (js_Number h v) then Num (js_Number h v) else v)"

definition applyOperator :: "heap \<Rightarrow> binop \<Rightarrow> val \<Rightarrow> val \<Rightarrow> val" where
  "applyOperator h operator left right =
     (let numLeft = numeric_if_string h left; numRight = numeric_if_string h right
      in case operator of
           Plus \<Rightarrow>
             if is_Num numLeft \<and> is_Num numRight
             then Num (num_add (js_Number h numLeft) (js_Number h numRight))
             else js_plus h left right
         | Minus \<Rightarrow> js_minus h numLeft numRight
         | Multiply \<Rightarrow> js_times h numLeft numRight
         | Divide \<Rightarrow> js_divide h numLeft numRight
         | Equals \<Rightarrow> Bool (js_loose_eq h left right)
         | NotEquals \<Rightarrow> Bool (\<not> js_loose_eq h left right)
         | LessThan \<Rightarrow> Bool (js_less h left right = Some True)
         | GreaterThan \<Rightarrow> Bool (js_less h right left = Some True)
         | LessEqual \<Rightarrow> Bool (js_less h right left = Some False)
         | GreaterEqual \<Rightarrow> Bool (js_less h left right = Some False))"

text \<open>The part of \<open>BinaryExpression.evaluate\<close> after both operands are evaluated.\<close>

definition binary_result :: "heap \<Rightarrow> binop \<Rightarrow> val \<Rightarrow> val \<Rightarrow> val" where
  "binary_result h operator l r =
     (let leftValue = trim_if_string l; rightValue = trim_if_string r;
          leftNumeric = (\<not> isNaN (js_Number h leftValue) \<and> leftValue \<noteq> Str []);
          rightNumeric = (\<not> isNaN (js_Number h rightValue) \<and> rightValue \<noteq> Str [])
      in if leftNumeric \<and> rightNumeric
         then applyOperator h operator (Num (js_Number h leftValue)) (Num (js_Number h rightValue))
         else applyOperator h operator leftValue rightValue)"

text \<open>The two \<open>reduce\<close> calls of \<open>ConditionalExpression.evaluateBranch\<close>.\<close>

fun combine_values :: "heap \<Rightarrow> string \<Rightarrow> val list \<Rightarrow> error + string" where
  "combine_values h acc [] = Inr acc"
| "combine_values h acc (v # vs) =
     (if acc \<noteq> [] \<and> \<not> ends_with CHR '' '' acc then
        (case v of
           Str s \<Rightarrow>
             if \<not> starts_with_any '' '' s \<and> \<not> starts_with_any ''.,!?'' s
             then combine_values h (acc @ '' '' @ s) vs
             else combine_values h (acc @ s) vs
         | Undefined \<Rightarrow>
             Inl (TypeError ''Cannot read properties of undefined (reading startsWith)'')
         | Null \<Rightarrow>
             Inl (TypeError ''Cannot read properties of null (reading startsWith)'')
         | _ \<Rightarrow> Inl (TypeError ''value.startsWith is not a function''))
      else combine_values h (acc @ js_String h v) vs)"

fun merge_knowledge :: "heap \<Rightarrow> val \<Rightarrow> val list \<Rightarrow> val \<times> heap" where
  "merge_knowledge h acc [] = (acc, h)"
| "merge_knowledge h acc (k # ks) =
     (let (acc', h') = object_spread h [acc, k] in merge_knowledge h' acc' ks)"

text \<open>
  The loop of \<open>Rule.selectWeightedAlternative\<close>: \<open>None\<close> when it ends without a pick, and
  the caller falls back to the last alternative.
\<close>

fun pick_alternative :: "rat \<Rightarrow> rat \<Rightarrow> alternative list \<Rightarrow> alternative option" where
  "pick_alternative random currentWeight [] = None"
| "pick_alternative random currentWeight (a # as) =
     (if random \<le> currentWeight + weight a then Some a
      else pick_alternative random (currentWeight + weight a) as)"

text \<open>The text accumulation of \<open>Alternative.evaluate\<close> for one element value.\<close>

definition accumulate :: "heap \<Rightarrow> string \<Rightarrow> bool \<Rightarrow> val \<Rightarrow> string \<times> bool" where
  "accumulate h result needsSpace v =
     (if v \<noteq> Null \<and> v \<noteq> Undefined \<and> v \<noteq> Str [] then
        let valueStr = js_String h v
        in ((if needsSpace \<and> valueStr \<noteq> [newline] \<and> \<not> starts_with_any [newline] valueStr
                \<and> result \<noteq> [] \<and> \<not> ends_with newline result
                \<and> \<not> starts_with_any ''.,!?;:'' valueStr
             then result @ '' '' else result) @ valueStr,
            True)
      else (result, needsSpace))"

subsection \<open>The \<open>evaluate\<close> methods\<close>

text \<open>
  Rule references make the evaluator recursive without bound (\<open>$start := $start\<close>), so
  \<open>evaluate\<close>, the dynamic dispatch \<open>node.evaluate(context)\<close>, takes fuel: every nested
  call of it spends one unit, and \<open>OutOfFuel\<close> is the answer of a call that has none left
  (a JavaScript engine answers the same recursion with a stack overflow).  The methods
  between two dispatches take the dispatch they may call as their first argument \<open>ev\<close>:
  \<open>alt_loop\<close> is the \<open>for\<close> loop of \<open>Alternative.evaluate\<close>, \<open>compound_loop\<close> that of
  \<open>CompoundExpression.evaluate\<close> and \<open>branch_map\<close> the \<open>map\<close> of
  \<open>ConditionalExpression.evaluateBranch\<close>.

  \<open>Alternative.evaluate\<close> works on \<open>currentVariables\<close>, a copy of the map in its context,
  and never writes to the context's own map, which is why it returns \<open>vars\<close> as it got it.
  \<open>Rule.selectWeightedAlternative\<close> hands the alternative a copy as well and afterwards
  stores every entry of that copy in the map of its own context.
\<close>

type_synonym evaluator =
  "node \<Rightarrow> val \<Rightarrow> grammar option \<Rightarrow> variables \<Rightarrow> world \<Rightarrow> evaluation"

fun alt_loop ::
  "evaluator \<Rightarrow> node list \<Rightarrow> string \<Rightarrow> bool \<Rightarrow> val \<Rightarrow> grammar option \<Rightarrow> variables \<Rightarrow> world
    \<Rightarrow> error + (string \<times> val \<times> variables \<times> world)" where
  "alt_loop ev [] result needsSpace k g currentVariables w =
     Inr (result, k, currentVariables, w)"
| "alt_loop ev (el # els) result needsSpace k g currentVariables w =
     (case ev el k g currentVariables w of
        Inl e \<Rightarrow> Inl e
      | Inr (v, k', currentVariables', w') \<Rightarrow>
          (let (result', needsSpace') = accumulate (heap w') result needsSpace v
           in alt_loop ev els result' needsSpace' k' g currentVariables' w'))"

definition Alternative_evaluate ::
  "evaluator \<Rightarrow> alternative \<Rightarrow> val \<Rightarrow> grammar option \<Rightarrow> variables \<Rightarrow> world \<Rightarrow> evaluation" where
  "Alternative_evaluate ev a k g vars w =
     (case alt_loop ev (elements a) [] False k g vars w of
        Inl e \<Rightarrow> Inl e
      | Inr (result, k', currentVariables, w') \<Rightarrow> Inr (Str result, k', vars, w'))"

definition selectWeightedAlternative ::
  "evaluator \<Rightarrow> rule \<Rightarrow> val \<Rightarrow> grammar option \<Rightarrow> variables \<Rightarrow> world \<Rightarrow> evaluation" where
  "selectWeightedAlternative ev r k g vars w =
     (let weights = map weight (alternatives r);
          totalWeight = foldl (+) 0 weights;
          (x, w1) = draw w;
          random = x * totalWeight;
          chosen = (case pick_alternative random 0 (alternatives r) of
                      Some a \<Rightarrow> a
                    | None \<Rightarrow> last (alternatives r))
      in (case Alternative_evaluate ev chosen k g vars w1 of
            Inl e \<Rightarrow> Inl e
          | Inr (v, k', altVariables, w') \<Rightarrow> Inr (v, k', copy_entries altVariables vars, w')))"

definition Rule_evaluate ::
  "evaluator \<Rightarrow> rule \<Rightarrow> val \<Rightarrow> grammar option \<Rightarrow> variables \<Rightarrow> world \<Rightarrow> evaluation" where
  "Rule_evaluate ev r k g vars w =
     (if alternatives r = [] then
        Inl (EvaluationError (''Rule '' @ name r @ '' has no alternatives'') None)
      else if length (alternatives r) = 1 then
        Alternative_evaluate ev (alternatives r ! 0) k g vars w
      else selectWeightedAlternative ev r k g vars w)"

fun branch_map ::
  "evaluator \<Rightarrow> node list \<Rightarrow> val \<Rightarrow> grammar option \<Rightarrow> variables \<Rightarrow> world
    \<Rightarrow> error + ((val \<times> val) list \<times> variables \<times> world)" where
  "branch_map ev [] k g vars w = Inr ([], vars, w)"
| "branch_map ev (ex # exs) k g vars w =
     (case ev ex k g vars w of
        Inl e \<Rightarrow> Inl e
      | Inr (v, k', vars', w') \<Rightarrow>
          (case branch_map ev exs k g vars' w' of
             Inl e \<Rightarrow> Inl e
           | Inr (results, vars'', w'') \<Rightarrow> Inr ((v, k') # results, vars'', w'')))"

fun evaluateBranch ::
  "evaluator \<Rightarrow> node \<Rightarrow> val \<Rightarrow> grammar option \<Rightarrow> variables \<Rightarrow> world \<Rightarrow> evaluation" where
  "evaluateBranch ev (CompoundExpression exprs) k g vars w =
     (case branch_map ev exprs k g vars w of
        Inl e \<Rightarrow> Inl e
      | Inr (results, vars', w') \<Rightarrow>
          (case combine_values (heap w') [] (map fst results) of
             Inl e \<Rightarrow> Inl e
           | Inr combinedValue \<Rightarrow>
               (let (updatedKnowledge, h') = merge_knowledge (heap w') k (map snd results)
                in Inr (Str combinedValue, updatedKnowledge, vars', w'\<lparr>heap := h'\<rparr>))))"
| "evaluateBranch ev branch k g vars w = ev branch k g vars w"

fun compound_loop ::
  "evaluator \<Rightarrow> node list \<Rightarrow> val \<Rightarrow> val \<Rightarrow> variables \<Rightarrow> variables \<Rightarrow> grammar option \<Rightarrow> world
    \<Rightarrow> evaluation" where
  "compound_loop ev [] k lastValue currentVariables parentVariables g w =
     Inr (lastValue, k, parentVariables, w)"
| "compound_loop ev (ex # exs) k lastValue currentVariables parentVariables g w =
     (case ev ex k g currentVariables w of
        Inl e \<Rightarrow> Inl e
      | Inr (v, k', currentVariables', w') \<Rightarrow>
          compound_loop ev exs k' v currentVariables'
            (copy_entries currentVariables' parentVariables) g w')"

text \<open>One dispatch: the \<open>evaluate\<close> method of each node class, with \<open>ev\<close> for the nested calls.\<close>

fun evaluate_node :: "evaluator \<Rightarrow> evaluator" where
  "evaluate_node ev (Literal v) k g vars w = Inr (v, k, vars, w)"
| "evaluate_node ev (RuleReference ruleName) k g vars w =
     (case map_of vars ruleName of
        Some v \<Rightarrow> Inr (coerce_numeric_string v, k, vars, w)
      | None \<Rightarrow>
          (case g of
             None \<Rightarrow>
               Inl (EvaluationError (''Cannot resolve rule reference '' @ quoted ruleName
                                     @ '' - no grammar context'') None)
           | Some gr \<Rightarrow>
               (case map_of gr ruleName of
                  None \<Rightarrow> Inl (EvaluationError (''Rule '' @ quoted ruleName @ '' not found'') None)
                | Some r \<Rightarrow>
                    (case Rule_evaluate ev r k g vars w of
                       Inl e \<Rightarrow> Inl e
                     | Inr (v, k', vars', w') \<Rightarrow> Inr (trim_if_string v, k', vars', w')))))"
| "evaluate_node ev (VariableReference r) k g vars w =
     (case (if isKnowledge r then evaluateKnowledgePath r k vars w
            else
              (case path r of
                 [] \<Rightarrow> Inl (Unmodelled ''empty variable path'')
               | varName # rest \<Rightarrow>
                   (case map_of vars varName of
                      Some v0 \<Rightarrow>
                        (case walk_variable (heap w) v0 rest of
                           Inl e \<Rightarrow> Inl e
                         | Inr v \<Rightarrow> Inr (coerce_numeric_string v, k, vars, w))
                    | None \<Rightarrow>
                        (case (if rest = [] then (case g of None \<Rightarrow> None | Some gr \<Rightarrow> map_of gr varName)
                               else None) of
                           Some rl \<Rightarrow>
                             (case Rule_evaluate ev rl k g vars w of
                                Inl e \<Rightarrow> Inl e
                              | Inr (v, k', vars', w') \<Rightarrow> Inr (trim_if_string v, k', vars', w'))
                         | None \<Rightarrow>
                             Inl (EvaluationError (''Variable or rule '' @ quoted varName
                                                   @ '' not defined'') None))))) of
        Inl e \<Rightarrow> Inl (wrap_error r e)
      | Inr res \<Rightarrow> Inr res)"
| "evaluate_node ev (Assignment tgt operator ex) k g vars w =
     (case ev ex k g vars w of
        Inl e \<Rightarrow> Inl e
      | Inr (v, k1, vars1, w1) \<Rightarrow>
          if isKnowledge tgt then assignToKnowledge tgt operator k1 v vars1 w1
          else assignToVariable tgt operator k1 v vars1 w1)"
| "evaluate_node ev (BinaryExpression l operator r) k g vars w =
     (case ev l k g vars w of
        Inl e \<Rightarrow> Inl e
      | Inr (lv, k1, vars1, w1) \<Rightarrow>
          (case ev r k1 g vars1 w1 of
             Inl e \<Rightarrow> Inl e
           | Inr (rv, k2, vars2, w2) \<Rightarrow>
               Inr (binary_result (heap w2) operator lv rv, k2, vars2, w2)))"
| "evaluate_node ev (ConditionalExpression c t f) k g vars w =
     (case ev c k g vars w of
        Inl e \<Rightarrow> Inl e
      | Inr (cv, k1, vars1, w1) \<Rightarrow>
          if js_truthy cv then evaluateBranch ev t k1 g vars1 w1
          else
            (case f of
               Some fb \<Rightarrow> evaluateBranch ev fb k1 g vars1 w1
             | None \<Rightarrow> Inr (Str [], k1, vars1, w1)))"
| "evaluate_node ev (SilentExpression ex) k g vars w =
     (case ev ex k g vars w of
        Inl e \<Rightarrow> Inl e
      | Inr (v, k', vars', w') \<Rightarrow> Inr (Str [], k', vars', w'))"
| "evaluate_node ev (CompoundExpression exprs) k g vars w =
     compound_loop ev exprs k (Str []) vars vars g w"

primrec evaluate :: "nat \<Rightarrow> evaluator" where
  "evaluate 0 = (\<lambda>nd k g vars w. Inl OutOfFuel)"
| "evaluate (Suc n) = evaluate_node (evaluate n)"

text \<open>
  \<open>Grammar.evaluate\<close> and \<open>Generator.execute\<close>.  \<open>sys\<close> is the state of \<open>Math.random\<close>, which
  an execution without a seed advances.
\<close>

definition Grammar_evaluate ::
  "nat \<Rightarrow> grammar \<Rightarrow> val \<Rightarrow> variables \<Rightarrow> world \<Rightarrow> evaluation" where
  "Grammar_evaluate n gr k vars w =
     (case map_of gr ''start'' of
        None \<Rightarrow> Inl (EvaluationError ''No start rule defined'' None)
      | Some startRule \<Rightarrow>
          (case Rule_evaluate (evaluate n) startRule k (Some gr) vars w of
             Inl e \<Rightarrow> Inl e
           | Inr (v, k', vars', w') \<Rightarrow>
               Inr (if is_Num v then Str (js_String (heap w') v) else v, k', vars', w')))"

definition createSeededRandom :: "int option \<Rightarrow> rng \<Rightarrow> rng" where
  "createSeededRandom seed sys = (case seed of None \<Rightarrow> sys | Some s \<Rightarrow> Seeded (seed_state s))"

definition createExecutionContext :: "val \<Rightarrow> int option \<Rightarrow> heap \<Rightarrow> rng \<Rightarrow> val \<times> variables \<times> world" where
  "createExecutionContext knowledge seed h sys =
     (let (k, h') = object_spread h [knowledge]
      in (k, [], \<lparr>heap = h', entropy = createSeededRandom seed sys\<rparr>))"

definition execute ::
  "nat \<Rightarrow> grammar \<Rightarrow> val \<Rightarrow> int option \<Rightarrow> heap \<Rightarrow> rng \<Rightarrow> error + (val \<times> val \<times> heap \<times> rng)" where
  "execute n ast knowledge seed h sys =
     (let (k0, h0) = (if knowledge = Undefined
                      then (let (r, h1) = alloc (Object []) h in (Ref r, h1))
                      else (knowledge, h));
          (k, vars, w) = createExecutionContext k0 seed h0 sys
      in case Grammar_evaluate n ast k vars w of
           Inl e \<Rightarrow> Inl e
         | Inr (v, updatedKnowledge, vars', w') \<Rightarrow>
             Inr (v, updatedKnowledge, heap w',
                  (case seed of None \<Rightarrow> entropy w' | Some s \<Rightarrow> sys)))"

section \<open>Observations and example grammars\<close>

text \<open>
  What a caller can compare after a call: the value, the updated knowledge (a
  reference), the variables and the heap, without the state of the random source.
\<close>

definition outcome :: "evaluation \<Rightarrow> error + (val \<times> val \<times> variables \<times> heap)" where
  "outcome r = (case r of Inl e \<Rightarrow> Inl e | Inr (v, k, vars, w) \<Rightarrow> Inr (v, k, vars, heap w))"

definition execution_result ::
  "error + (val \<times> val \<times> heap \<times> rng) \<Rightarrow> error + (val \<times> val \<times> heap)" where
  "execution_result r = (case r of Inl e \<Rightarrow> Inl e | Inr (v, k, h, s) \<Rightarrow> Inr (v, k, h))"

text \<open>The state of \<open>Math.random\<close> in the examples: any stream will do.\<close>

definition sys0 :: rng where
  "sys0 = Unseeded (\<lambda>i. 0) 0"

text \<open>
  \<^verbatim>\<open>$start := $a $x\<close>, \<^verbatim>\<open>$a := [!$x = 5] hi\<close>: rule \<open>a\<close> binds \<open>x\<close>, and the alternative of
  \<open>start\<close> that called it reads \<open>x\<close> next.
\<close>

definition ex_scope :: grammar where
  "ex_scope =
     [(''start'', Rule ''start'' [Alternative [RuleReference ''a'', RuleReference ''x''] 1]),
      (''a'', Rule ''a'' [Alternative
         [SilentExpression (Assignment (VarRef [''x''] False) Assign (Literal (Str ''5''))),
          Literal (Str ''hi'')] 1])]"

text \<open>\<^verbatim>\<open>$start := [$x -= abc]\<close>\<close>

definition ex_sub_variable :: grammar where
  "ex_sub_variable =
     [(''start'', Rule ''start'' [Alternative
         [Assignment (VarRef [''x''] False) MinusAssign (Literal (Str ''abc''))] 1])]"

text \<open>\<^verbatim>\<open>$start := [$x += 5]\<close>\<close>

definition ex_add_variable :: grammar where
  "ex_add_variable =
     [(''start'', Rule ''start'' [Alternative
         [Assignment (VarRef [''x''] False) PlusAssign (Literal (Str ''5''))] 1])]"

text \<open>\<^verbatim>\<open>$start := [$$.day += 1]\<close>\<close>

definition ex_add_knowledge :: grammar where
  "ex_add_knowledge =
     [(''start'', Rule ''start'' [Alternative
         [Assignment (VarRef [''$'', ''day''] True) PlusAssign (Literal (Str ''1''))] 1])]"




section \<open>The spec's words as definitions\<close>






text \<open>\<^verbatim>\<open>$start := one::1 | two::2 | three::3\<close>\<close>

definition ex_weighted :: "alternative list" where
  "ex_weighted =
     [Alternative [Literal (Str ''one'')] 1, Alternative [Literal (Str ''two'')] 2,
      Alternative [Literal (Str ''three'')] 3]"



section \<open>The lexer (\<open>parser/lexer.ts\<close>)\<close>

datatype TokenType =
    STRING | NUMBER | IDENTIFIER
  | ASSIGN | PLUS_ASSIGN | MINUS_ASSIGN | PLUS | MINUS | MULTIPLY | DIVIDE
  | EQUALS | NOT_EQUALS | LESS_THAN | GREATER_THAN | LESS_EQUAL | GREATER_EQUAL
  | DOT | COMMA | PIPE | COLON | DOUBLE_COLON | QUESTION | EXCLAMATION | SEMICOLON
  | LPAREN | RPAREN | LBRACKET | RBRACKET
  | DOLLAR | NEWLINE | EOF | ASSIGN_OP

record token =
  ttype :: TokenType
  text_of :: string
  line_of :: nat
  column_of :: nat

text \<open>
  The lexer's state is the input from \<open>position\<close> on, the line and the column.  Every
  loop of the lexer and of the parser runs on fuel and answers \<open>OutOfFuel\<close> when it is
  used up; \<open>tokenize\<close> and \<open>parse\<close> start each loop with more fuel than there are
  characters or tokens.  One loop of the source does not advance: \<open>string\<close>, at a line
  break inside a string literal, counts the line and looks at the same character again.
  It is modelled as it is written, so that it uses up any fuel.
\<close>

definition isAlpha :: "char \<Rightarrow> bool" where
  "isAlpha c =
     (let n = (of_char c :: nat)
      in (97 \<le> n \<and> n \<le> 122) \<or> (65 \<le> n \<and> n \<le> 90) \<or> c = CHR ''_'')"

definition isAlphaNumeric :: "char \<Rightarrow> bool" where
  "isAlphaNumeric c = (isAlpha c \<or> isDigit c)"

definition createToken :: "TokenType \<Rightarrow> string \<Rightarrow> nat \<Rightarrow> nat \<Rightarrow> token" where
  "createToken t v l c = \<lparr>ttype = t, text_of = v, line_of = l, column_of = c\<rparr>"

fun skipWhitespace :: "string \<Rightarrow> nat \<Rightarrow> string \<times> nat" where
  "skipWhitespace [] col = ([], col)"
| "skipWhitespace (c # cs) col =
     (if c = CHR '' '' \<or> c = CHR 0x0D \<or> c = CHR 0x09 then skipWhitespace cs (col + 1)
      else if c = CHR ''#'' then
        (dropWhile (\<lambda>x. x \<noteq> newline) (c # cs),
         col + length (takeWhile (\<lambda>x. x \<noteq> newline) (c # cs)))
      else (c # cs, col))"

text \<open>
  The loop of \<open>string\<close>, after the opening quote: the value so far, the rest of the input,
  the line and the column.  \<open>advance\<close> at the end of the input returns the character 0 and
  moves nothing.
\<close>

fun string_loop ::
  "nat \<Rightarrow> char \<Rightarrow> string \<Rightarrow> string \<Rightarrow> nat \<Rightarrow> nat \<Rightarrow> nat \<Rightarrow> nat
    \<Rightarrow> error + (string \<times> string \<times> nat \<times> nat)" where
  "string_loop 0 quote inp v l c startLine startColumn = Inl OutOfFuel"
| "string_loop (Suc n) quote [] v l c startLine startColumn =
     Inl (ParseError ''Unterminated string'' startLine startColumn)"
| "string_loop (Suc n) quote (x # xs) v l c startLine startColumn =
     (if x = quote then Inr (v, xs, l, c + 1)
      else if x = newline then string_loop n quote (x # xs) v (l + 1) 0 startLine startColumn
      else if x = CHR 0x5C then
        (case xs of
           [] \<Rightarrow> string_loop n quote [] (v @ [CHR 0x00]) l (c + 1) startLine startColumn
         | e # es \<Rightarrow>
             string_loop n quote es
               (v @ [if e = CHR ''n'' then newline
                     else if e = CHR ''t'' then CHR 0x09
                     else if e = CHR ''r'' then CHR 0x0D
                     else e])
               (if e = newline then l + 1 else l)
               (if e = newline then 1 else c + 2) startLine startColumn)
      else string_loop n quote xs (v @ [x]) l (c + 1) startLine startColumn)"

definition number_text :: "string \<Rightarrow> string" where
  "number_text inp =
     (let ds = takeWhile isDigit inp; r = dropWhile isDigit inp
      in case r of
           d # e # es \<Rightarrow>
             if d = CHR ''.'' \<and> isDigit e then ds @ [d] @ takeWhile isDigit (e # es) else ds
         | _ \<Rightarrow> ds)"

text \<open>
  \<open>nextToken\<close>: the token that starts at the first character of the input, and the state
  after it.  \<open>two c t2 t1\<close> is the choice between a two-character operator and its
  one-character prefix.
\<close>

definition nextToken ::
  "nat \<Rightarrow> string \<Rightarrow> nat \<Rightarrow> nat \<Rightarrow> error + (token \<times> string \<times> nat \<times> nat)" where
  "nextToken fuel inp l c =
     (case inp of
        [] \<Rightarrow> Inl (ParseError (''Unexpected character '' @ quoted [CHR 0x00]) l c)
      | x # xs \<Rightarrow>
          let one = (\<lambda>t. Inr (createToken t [x] l c, xs, l, c + 1));
              two = (\<lambda>y t2 t1.
                       (case xs of
                          z # zs \<Rightarrow> if z = y then Inr (createToken t2 [x, y] l c, zs, l, c + 2)
                                     else one t1
                        | [] \<Rightarrow> one t1))
          in if x = newline then Inr (createToken NEWLINE [x] l c, xs, l + 1, 1)
             else if x = CHR ''('' then one LPAREN
             else if x = CHR '')'' then one RPAREN
             else if x = CHR ''['' then one LBRACKET
             else if x = CHR '']'' then one RBRACKET
             else if x = CHR ''.'' then one DOT
             else if x = CHR '','' then one COMMA
             else if x = CHR ''|'' then one PIPE
             else if x = CHR ''?'' then one QUESTION
             else if x = CHR '';'' then one SEMICOLON
             else if x = CHR ''$'' then one DOLLAR
             else if x = CHR ''+'' then two CHR ''='' PLUS_ASSIGN PLUS
             else if x = CHR ''-'' then two CHR ''='' MINUS_ASSIGN MINUS
             else if x = CHR ''*'' then one MULTIPLY
             else if x = CHR ''/'' then one DIVIDE
             else if x = CHR ''='' then two CHR ''='' EQUALS ASSIGN
             else if x = CHR ''!'' then two CHR ''='' NOT_EQUALS EXCLAMATION
             else if x = CHR ''<'' then two CHR ''='' LESS_EQUAL LESS_THAN
             else if x = CHR ''>'' then two CHR ''='' GREATER_EQUAL GREATER_THAN
             else if x = CHR '':'' then
               (case xs of
                  z # zs \<Rightarrow>
                    if z = CHR ''='' then Inr (createToken ASSIGN_OP '':='' l c, zs, l, c + 2)
                    else if z = CHR '':'' then Inr (createToken DOUBLE_COLON ''::'' l c, zs, l, c + 2)
                    else one COLON
                | [] \<Rightarrow> one COLON)
             else if x = CHR 0x22 \<or> x = CHR 0x27 then
               (case string_loop fuel x xs [] l (c + 1) l c of
                  Inl e \<Rightarrow> Inl e
                | Inr (v, rest, l', c') \<Rightarrow> Inr (createToken STRING v l c, rest, l', c'))
             else if isDigit x then
               (let v = number_text inp
                in Inr (createToken NUMBER v l c, drop (length v) inp, l, c + length v))
             else if isAlpha x then
               (let v = takeWhile isAlphaNumeric inp
                in Inr (createToken IDENTIFIER v l c, drop (length v) inp, l, c + length v))
             else Inl (ParseError (''Unexpected character '' @ quoted [x]) l c))"

fun tokenize_loop :: "nat \<Rightarrow> string \<Rightarrow> nat \<Rightarrow> nat \<Rightarrow> token list \<Rightarrow> error + token list" where
  "tokenize_loop 0 inp l c tokens = Inl OutOfFuel"
| "tokenize_loop (Suc n) inp l c tokens =
     (if inp = [] then Inr (tokens @ [createToken EOF [] l c])
      else
        (case skipWhitespace inp c of
           ([], c') \<Rightarrow> Inr (tokens @ [createToken EOF [] l c'])
         | (x # xs, c') \<Rightarrow>
             (case nextToken (Suc (length inp)) (x # xs) l c' of
                Inl e \<Rightarrow> Inl e
              | Inr (t, rest, l', c'') \<Rightarrow> tokenize_loop n rest l' c'' (tokens @ [t]))))"

definition tokenize :: "string \<Rightarrow> error + token list" where
  "tokenize inp = tokenize_loop (Suc (length inp)) inp 1 1 []"

section \<open>The parser (\<open>parser/parser.ts\<close>)\<close>

text \<open>
  The parser's state is the token array and the index \<open>current\<close>.  A parsing function
  returns its result and the new index.  The expression parser is recursive through
  parentheses and through the right-hand side of an assignment; as in the evaluator,
  the functions between two recursive calls take the function they call as an argument.
\<close>

definition eof_token :: token where
  "eof_token = createToken EOF [] 0 0"

definition peek :: "token list \<Rightarrow> nat \<Rightarrow> token" where
  "peek ts cur = (if cur < length ts then ts ! cur else eof_token)"

definition previous :: "token list \<Rightarrow> nat \<Rightarrow> token" where
  "previous ts cur = peek ts (cur - 1)"

definition isAtEnd :: "token list \<Rightarrow> nat \<Rightarrow> bool" where
  "isAtEnd ts cur = (ttype (peek ts cur) = EOF)"

definition check :: "token list \<Rightarrow> nat \<Rightarrow> TokenType \<Rightarrow> bool" where
  "check ts cur t = (\<not> isAtEnd ts cur \<and> ttype (peek ts cur) = t)"

text \<open>\<open>match(t1, ..., tn)\<close>: the index after the token when one of the types fits.\<close>

definition match_any :: "token list \<Rightarrow> nat \<Rightarrow> TokenType list \<Rightarrow> nat option" where
  "match_any ts cur types = (if list_ex (check ts cur) types then Some (cur + 1) else None)"

definition consume :: "token list \<Rightarrow> nat \<Rightarrow> TokenType \<Rightarrow> string \<Rightarrow> error + (token \<times> nat)" where
  "consume ts cur t message =
     (if check ts cur t then Inr (peek ts cur, cur + 1)
      else Inl (ParseError message (line_of (peek ts cur)) (column_of (peek ts cur))))"

fun skipNewlines :: "nat \<Rightarrow> token list \<Rightarrow> nat \<Rightarrow> nat" where
  "skipNewlines 0 ts cur = cur"
| "skipNewlines (Suc n) ts cur =
     (if check ts cur NEWLINE then skipNewlines n ts (cur + 1) else cur)"

definition isStartOfNextRule :: "token list \<Rightarrow> nat \<Rightarrow> bool" where
  "isStartOfNextRule ts cur =
     (check ts cur DOLLAR
      \<and> cur + 1 < length ts \<and> ttype (ts ! (cur + 1)) = IDENTIFIER
      \<and> cur + 2 < length ts \<and> ttype (ts ! (cur + 2)) = ASSIGN_OP)"

definition isInExpressionContext :: "token list \<Rightarrow> nat \<Rightarrow> bool" where
  "isInExpressionContext ts cur =
     (ttype (peek ts cur) \<in> {PLUS, MINUS, MULTIPLY, DIVIDE, EQUALS, NOT_EQUALS, GREATER_THAN,
        LESS_THAN, GREATER_EQUAL, LESS_EQUAL, RPAREN, ASSIGN, PLUS_ASSIGN, MINUS_ASSIGN})"

text \<open>The loops \<open>while (this.match(DOT)) path.push(this.consume(IDENTIFIER, ...).value)\<close>.\<close>

fun path_loop :: "nat \<Rightarrow> token list \<Rightarrow> nat \<Rightarrow> string list \<Rightarrow> error + (string list \<times> nat)" where
  "path_loop 0 ts cur p = Inl OutOfFuel"
| "path_loop (Suc n) ts cur p =
     (if check ts cur DOT then
        (case consume ts (cur + 1) IDENTIFIER ''Expected property name after .'' of
           Inl e \<Rightarrow> Inl e
         | Inr (t, cur') \<Rightarrow> path_loop n ts cur' (p @ [text_of t]))
      else Inr (p, cur))"

text \<open>\<open>parseDollarExpression\<close>, entered after the first \<open>$\<close> has been consumed.\<close>

definition parseDollarExpression :: "token list \<Rightarrow> nat \<Rightarrow> error + (node \<times> nat)" where
  "parseDollarExpression ts cur =
     (if check ts cur DOLLAR then
        (case consume ts (cur + 1) DOT ''Expected . after $$'' of
           Inl e \<Rightarrow> Inl e
         | Inr (d, cur1) \<Rightarrow>
             (case consume ts cur1 IDENTIFIER ''Expected property name after $$.'' of
                Inl e \<Rightarrow> Inl e
              | Inr (t, cur2) \<Rightarrow>
                  (case path_loop (length ts) ts cur2 [''$'', text_of t] of
                     Inl e \<Rightarrow> Inl e
                   | Inr (p, cur3) \<Rightarrow> Inr (VariableReference (VarRef p True), cur3))))
      else
        (case consume ts cur IDENTIFIER ''Expected identifier after $'' of
           Inl e \<Rightarrow> Inl e
         | Inr (t, cur1) \<Rightarrow>
             if check ts cur1 DOT then
               (case path_loop (length ts) ts cur1 [text_of t] of
                  Inl e \<Rightarrow> Inl e
                | Inr (p, cur2) \<Rightarrow> Inr (VariableReference (VarRef p False), cur2))
             else if isInExpressionContext ts cur1 then
               Inr (VariableReference (VarRef [text_of t] False), cur1)
             else Inr (RuleReference (text_of t), cur1)))"

type_synonym node_parser = "token list \<Rightarrow> nat \<Rightarrow> error + (node \<times> nat)"

definition parsePrimary :: "node_parser \<Rightarrow> node_parser" where
  "parsePrimary parseExpression ts cur =
     (if check ts cur NUMBER \<or> check ts cur STRING \<or> check ts cur IDENTIFIER then
        Inr (Literal (Str (text_of (peek ts cur))), cur + 1)
      else if check ts cur DOLLAR then parseDollarExpression ts (cur + 1)
      else if check ts cur LPAREN then
        (case parseExpression ts (cur + 1) of
           Inl e \<Rightarrow> Inl e
         | Inr (ex, cur1) \<Rightarrow>
             (case consume ts cur1 RPAREN (''Expected '' @ quoted '')'' @ '' after expression'') of
                Inl e \<Rightarrow> Inl e
              | Inr (t, cur2) \<Rightarrow> Inr (ex, cur2)))
      else Inl (ParseError (''Unexpected token in expression: '' @ text_of (peek ts cur))
                  (line_of (peek ts cur)) (column_of (peek ts cur))))"

definition binop_of :: "TokenType \<Rightarrow> binop" where
  "binop_of t =
     (case t of
        PLUS \<Rightarrow> Plus | MINUS \<Rightarrow> Minus | MULTIPLY \<Rightarrow> Multiply | DIVIDE \<Rightarrow> Divide
      | EQUALS \<Rightarrow> Equals | NOT_EQUALS \<Rightarrow> NotEquals | LESS_THAN \<Rightarrow> LessThan
      | GREATER_THAN \<Rightarrow> GreaterThan | LESS_EQUAL \<Rightarrow> LessEqual | _ \<Rightarrow> GreaterEqual)"

text \<open>
  The loop shared by \<open>parseMultiplication\<close>, \<open>parseAddition\<close> and \<open>parseComparison\<close>:
  \<open>while (this.match(types)) expr = new BinaryExpression(expr, operator, operand())\<close>.
\<close>

fun binary_loop ::
  "nat \<Rightarrow> TokenType list \<Rightarrow> node_parser \<Rightarrow> token list \<Rightarrow> node \<Rightarrow> nat \<Rightarrow> error + (node \<times> nat)" where
  "binary_loop 0 types operand ts ex cur = Inl OutOfFuel"
| "binary_loop (Suc n) types operand ts ex cur =
     (case match_any ts cur types of
        None \<Rightarrow> Inr (ex, cur)
      | Some cur1 \<Rightarrow>
          (case operand ts cur1 of
             Inl e \<Rightarrow> Inl e
           | Inr (right, cur2) \<Rightarrow>
               binary_loop n types operand ts
                 (BinaryExpression ex (binop_of (ttype (previous ts cur1))) right) cur2))"

definition binary_level :: "TokenType list \<Rightarrow> node_parser \<Rightarrow> node_parser" where
  "binary_level types operand ts cur =
     (case operand ts cur of
        Inl e \<Rightarrow> Inl e
      | Inr (ex, cur1) \<Rightarrow> binary_loop (length ts) types operand ts ex cur1)"

definition parseMultiplication :: "node_parser \<Rightarrow> node_parser" where
  "parseMultiplication parseExpression =
     binary_level [MULTIPLY, DIVIDE] (parsePrimary parseExpression)"

definition parseAddition :: "node_parser \<Rightarrow> node_parser" where
  "parseAddition parseExpression =
     binary_level [PLUS, MINUS] (parseMultiplication parseExpression)"

definition parseComparison :: "node_parser \<Rightarrow> node_parser" where
  "parseComparison parseExpression =
     binary_level [EQUALS, NOT_EQUALS, GREATER_THAN, GREATER_EQUAL, LESS_THAN, LESS_EQUAL]
       (parseAddition parseExpression)"

definition assign_op_of :: "TokenType \<Rightarrow> assign_op" where
  "assign_op_of t = (case t of ASSIGN \<Rightarrow> Assign | PLUS_ASSIGN \<Rightarrow> PlusAssign | _ \<Rightarrow> MinusAssign)"

definition parseConditional :: "node_parser \<Rightarrow> node_parser" where
  "parseConditional parseAssignment ts cur =
     (case parseAssignment ts cur of
        Inl e \<Rightarrow> Inl e
      | Inr (ex, cur1) \<Rightarrow>
          if check ts cur1 QUESTION then
            (case parseAssignment ts (cur1 + 1) of
               Inl e \<Rightarrow> Inl e
             | Inr (trueValue, cur2) \<Rightarrow>
                 if check ts cur2 PIPE then
                   (case parseAssignment ts (cur2 + 1) of
                      Inl e \<Rightarrow> Inl e
                    | Inr (falseValue, cur3) \<Rightarrow>
                        Inr (ConditionalExpression ex trueValue (Some falseValue), cur3))
                 else Inr (ConditionalExpression ex trueValue None, cur2))
          else Inr (ex, cur1))"

text \<open>
  One level of \<open>parseAssignment\<close>, with \<open>self\<close> for its call of itself on the right-hand
  side.  \<open>parseExpression\<close> is \<open>parseConditional\<close>.
\<close>

definition parseAssignment_level :: "node_parser \<Rightarrow> node_parser" where
  "parseAssignment_level self ts cur =
     (case parseComparison (parseConditional self) ts cur of
        Inl e \<Rightarrow> Inl e
      | Inr (ex, cur1) \<Rightarrow>
          (case match_any ts cur1 [ASSIGN, PLUS_ASSIGN, MINUS_ASSIGN] of
             None \<Rightarrow> Inr (ex, cur1)
           | Some cur2 \<Rightarrow>
               (case self ts cur2 of
                  Inl e \<Rightarrow> Inl e
                | Inr (right, cur3) \<Rightarrow>
                    Inr (Assignment
                           (case ex of
                              VariableReference r \<Rightarrow> r
                            | _ \<Rightarrow> VarRef [''temp_'' @ nat_str cur3] False)
                           (assign_op_of (ttype (previous ts cur2))) right,
                         cur3))))"

primrec parseAssignment :: "nat \<Rightarrow> node_parser" where
  "parseAssignment 0 = (\<lambda>ts cur. Inl OutOfFuel)"
| "parseAssignment (Suc n) = parseAssignment_level (parseAssignment n)"

definition parseExpression :: node_parser where
  "parseExpression ts cur = parseConditional (parseAssignment (length ts)) ts cur"

text \<open>The \<open>do ... while (this.match(SEMICOLON))\<close> loop of \<open>parseBracketedExpression\<close>.\<close>

fun expressions_loop ::
  "nat \<Rightarrow> token list \<Rightarrow> nat \<Rightarrow> node list \<Rightarrow> error + (node list \<times> nat)" where
  "expressions_loop 0 ts cur exprs = Inl OutOfFuel"
| "expressions_loop (Suc n) ts cur exprs =
     (case parseExpression ts cur of
        Inl e \<Rightarrow> Inl e
      | Inr (ex, cur1) \<Rightarrow>
          if check ts cur1 SEMICOLON then expressions_loop n ts (cur1 + 1) (exprs @ [ex])
          else Inr (exprs @ [ex], cur1))"

text \<open>\<open>parseBracketedExpression\<close>, entered after the \<open>[\<close> has been consumed.\<close>

definition parseBracketedExpression :: node_parser where
  "parseBracketedExpression ts cur =
     (let isSilent = check ts cur EXCLAMATION;
          cur0 = (if isSilent then cur + 1 else cur)
      in case expressions_loop (length ts) ts cur0 [] of
           Inl e \<Rightarrow> Inl e
         | Inr (expressions, cur1) \<Rightarrow>
             (case consume ts cur1 RBRACKET (''Expected '' @ quoted '']'' @ '' after bracketed expression'') of
                Inl e \<Rightarrow> Inl e
              | Inr (t, cur2) \<Rightarrow>
                  let result = (if length expressions = 1 then expressions ! 0
                                else CompoundExpression expressions)
                  in Inr (if isSilent then SilentExpression result else result, cur2)))"

text \<open>
  \<open>parseElement\<close>.  Its last case takes whatever token comes: \<open>advance\<close> returns the token
  before \<open>current\<close>, after moving \<open>current\<close> unless it is at the end.
\<close>

definition parseElement :: node_parser where
  "parseElement ts cur =
     (if check ts cur LBRACKET then parseBracketedExpression ts (cur + 1)
      else if check ts cur DOLLAR then parseDollarExpression ts (cur + 1)
      else
        let cur1 = (if isAtEnd ts cur then cur else cur + 1);
            t = previous ts cur1
        in if ttype t \<noteq> EOF then Inr (Literal (Str (text_of t)), cur1)
           else Inl (ParseError (''Unexpected token: '' @ text_of (peek ts cur1))
                       (line_of (peek ts cur1)) (column_of (peek ts cur1))))"

text \<open>
  \<open>parseFloat\<close> on the text of a number token, which is a run of digits with an optional
  fraction.  The weights of the model are finite numbers; for a text that \<open>parseFloat\<close>
  would not read as one, which the lexer never produces, the model does not answer.
\<close>

definition parseFloat :: "string \<Rightarrow> error + rat" where
  "parseFloat s =
     (case parse_unsigned_decimal s of
        Fin q \<Rightarrow> Inr q
      | _ \<Rightarrow> Inl (Unmodelled s))"

text \<open>
  The loop of \<open>parseAlternative\<close>: the elements so far and the weight, which is 1.0
  unless an element is followed by \<open>::\<close> and a number.  A \<open>::\<close> that no number follows is
  consumed and ignored.
\<close>

fun elements_loop ::
  "nat \<Rightarrow> token list \<Rightarrow> nat \<Rightarrow> node list \<Rightarrow> error + (node list \<times> rat \<times> nat)" where
  "elements_loop 0 ts cur els = Inl OutOfFuel"
| "elements_loop (Suc n) ts cur els =
     (if isAtEnd ts cur \<or> check ts cur PIPE \<or> isStartOfNextRule ts cur then Inr (els, 1, cur)
      else if check ts cur NEWLINE then
        elements_loop n ts (cur + 1) (els @ [Literal (Str [newline])])
      else
        (case parseElement ts cur of
           Inl e \<Rightarrow> Inl e
         | Inr (el, cur1) \<Rightarrow>
             if check ts cur1 DOUBLE_COLON then
               (if check ts (cur1 + 1) NUMBER then
                  (case parseFloat (text_of (peek ts (cur1 + 1))) of
                     Inl e \<Rightarrow> Inl e
                   | Inr wt \<Rightarrow> Inr (els @ [el], wt, cur1 + 2))
                else elements_loop n ts (cur1 + 1) (els @ [el]))
             else elements_loop n ts cur1 (els @ [el])))"

definition parseAlternative :: "token list \<Rightarrow> nat \<Rightarrow> error + (alternative \<times> nat)" where
  "parseAlternative ts cur =
     (case elements_loop (length ts) ts cur [] of
        Inl e \<Rightarrow> Inl e
      | Inr (els, wt, cur1) \<Rightarrow>
          if els = [] then
            Inl (ParseError ''Empty alternative'' (line_of (peek ts cur1)) (column_of (peek ts cur1)))
          else Inr (Alternative els wt, cur1))"

fun alternatives_loop ::
  "nat \<Rightarrow> token list \<Rightarrow> nat \<Rightarrow> alternative list \<Rightarrow> error + (alternative list \<times> nat)" where
  "alternatives_loop 0 ts cur alts = Inl OutOfFuel"
| "alternatives_loop (Suc n) ts cur alts =
     (if check ts cur PIPE then
        (case parseAlternative ts (cur + 1) of
           Inl e \<Rightarrow> Inl e
         | Inr (a, cur1) \<Rightarrow> alternatives_loop n ts cur1 (alts @ [a]))
      else Inr (alts, cur))"

definition parseAlternatives :: "token list \<Rightarrow> nat \<Rightarrow> error + (alternative list \<times> nat)" where
  "parseAlternatives ts cur =
     (case parseAlternative ts cur of
        Inl e \<Rightarrow> Inl e
      | Inr (a, cur1) \<Rightarrow> alternatives_loop (length ts) ts cur1 [a])"

definition parseRule :: "token list \<Rightarrow> nat \<Rightarrow> error + (rule \<times> nat)" where
  "parseRule ts cur =
     (case consume ts cur DOLLAR ''Expected $ before rule name'' of
        Inl e \<Rightarrow> Inl e
      | Inr (d, cur1) \<Rightarrow>
          (case consume ts cur1 IDENTIFIER ''Expected rule name after $'' of
             Inl e \<Rightarrow> Inl e
           | Inr (nameToken, cur2) \<Rightarrow>
               (case consume ts cur2 ASSIGN_OP (''Expected '' @ quoted '':='' @ '' after rule name'') of
                  Inl e \<Rightarrow> Inl e
                | Inr (a, cur3) \<Rightarrow>
                    (case parseAlternatives ts cur3 of
                       Inl e \<Rightarrow> Inl e
                     | Inr (alts, cur4) \<Rightarrow> Inr (Rule (text_of nameToken) alts, cur4)))))"

fun parse_loop :: "nat \<Rightarrow> token list \<Rightarrow> nat \<Rightarrow> grammar \<Rightarrow> error + grammar" where
  "parse_loop 0 ts cur rules = Inl OutOfFuel"
| "parse_loop (Suc n) ts cur rules =
     (if isAtEnd ts cur then Inr rules
      else
        let cur1 = skipNewlines (length ts) ts cur
        in if isAtEnd ts cur1 then Inr rules
           else
             (case parseRule ts cur1 of
                Inl e \<Rightarrow> Inl e
              | Inr (r, cur2) \<Rightarrow> parse_loop n ts cur2 (alist_set (name r) r rules)))"

definition parse :: "token list \<Rightarrow> error + grammar" where
  "parse ts =
     (case parse_loop (Suc (length ts)) ts 0 [] of
        Inl e \<Rightarrow> Inl e
      | Inr rules \<Rightarrow> if rules = [] then Inl (ParseError ''No rules found'' 1 1) else Inr rules)"

text \<open>\<open>Generator.compile\<close>: the constructor of \<open>Parser\<close> runs the lexer, \<open>parse\<close> the parser.\<close>

definition compile :: "string \<Rightarrow> error + grammar" where
  "compile source = (case tokenize source of Inl e \<Rightarrow> Inl e | Inr ts \<Rightarrow> parse ts)"

text \<open>
  Where the weight of a parsed alternative can come from, other than the default: a
  \<open>::\<close> token followed by a number token, read by \<open>parseFloat\<close>.
\<close>

definition marked_weight :: "token list \<Rightarrow> rat \<Rightarrow> bool" where
  "marked_weight ts wt =
     list_ex (\<lambda>i. check ts i DOUBLE_COLON \<and> check ts (i + 1) NUMBER
                   \<and> parseFloat (text_of (peek ts (i + 1))) = Inr wt) [0..<length ts]"

text \<open>\<^verbatim>\<open>$start := a ::0 | b\<close>\<close>

definition ex_zero_weight :: grammar where
  "ex_zero_weight =
     [(''start'', Rule ''start''
         [Alternative [Literal (Str ''a'')] 0, Alternative [Literal (Str ''b'')] 1])]"

text \<open>
  The invariant of the weights the parser produces: not negative, and either the default or
  the number that follows a \<open>::\<close> token of the input.
\<close>

definition weight_ok :: "token list \<Rightarrow> rat \<Rightarrow> bool" where
  "weight_ok ts wt = (0 \<le> wt \<and> (wt = 1 \<or> marked_weight ts wt))"

definition rule_ok :: "token list \<Rightarrow> rule \<Rightarrow> bool" where
  "rule_ok ts r = (\<forall>a \<in> set (alternatives r). weight_ok ts (weight a))"









section \<open>Verification\<close>

subsection \<open>Variables bound inside a rule\<close>

text \<open>
  \<open>Alternative.evaluate\<close> evaluates its elements on a copy of the caller's variable map
  and returns without writing to the caller's map: whatever its elements bind, the
  caller's map is as it was.
\<close>

lemma Alternative_evaluate_keeps_variables:
  assumes "Alternative_evaluate ev a k g vars w = Inr (v, k', vars', w')"
  shows "vars' = vars"
  using assms by (auto simp: Alternative_evaluate_def split: sum.splits)

text \<open>
  C4.  The claim: after \<open>Rule.evaluate\<close> has evaluated an alternative, every variable bound
  by the alternative's elements is in the caller's scope, so the next element of the
  calling alternative sees it.  The code does not do this.  In the grammar
  \<^verbatim>\<open>$start := $a $x\<close>, \<^verbatim>\<open>$a := [!$x = 5] hi\<close> the rule \<open>a\<close> binds \<open>x\<close>; when \<open>start\<close> then reads
  \<open>$x\<close> the variable is not in its scope, the name is looked up as a rule, and the
  execution fails with "Rule 'x' not found" instead of producing "hi 5".
\<close>

theorem rule_bindings_not_visible_to_caller:
  "execution_result (execute 10 ex_scope (Ref 0) (Some 1) [Object []] sys0)
     = Inl (EvaluationError (''Rule '' @ quoted ''x'' @ '' not found'') None)"
  by code_simp

subsection \<open>Compound assignment to a variable\<close>

text \<open>
  \<open>assignToVariable\<close> applies the JavaScript operators \<open>+\<close> and \<open>-\<close> to whatever the map
  holds (or 0) and the right-hand value; it has none of the numeric tests of
  \<open>assignToKnowledge\<close>.
\<close>

lemma assignToVariable_never_fails:
  "assignToVariable (VarRef (x # ps) False) operator k v vars w \<noteq> Inl e"
  by (cases operator) (simp_all add: assignToVariable_def Let_def)

text \<open>
  C7.  The claim: a \<open>-=\<close> assignment, to a knowledge path or to a variable, whose operands
  are not both numeric-looking fails with "subtraction is only valid for numeric values".
  For a variable target the code does not fail: \<^verbatim>\<open>$start := [$x -= abc]\<close> binds \<open>x\<close> to NaN
  and the execution returns the text "NaN".
\<close>

theorem subtract_from_variable_yields_NaN:
  "execution_result (execute 10 ex_sub_variable (Ref 0) (Some 1) [Object []] sys0)
     = Inr (Str ''NaN'', Ref 1, [Object [], Object []])"
  by code_simp

text \<open>
  C10.  The claim: \<open>+=\<close> and \<open>-=\<close> on an unbound variable or an absent knowledge property
  take the current value to be 0 and do not fail, so that \<^verbatim>\<open>$x += 5\<close> in a fresh scope
  binds \<open>x\<close> to 5.  The code takes 0 for the current value, but the right-hand side of
  \<^verbatim>\<open>$x += 5\<close> is the text of the number token, the string "5", and \<open>0 + "5"\<close> is the
  string "05": that is the value of the assignment and the value bound to \<open>x\<close>.
\<close>

theorem add_to_unbound_variable_concatenates:
  "outcome (evaluate 2 (Assignment (VarRef [''x''] False) PlusAssign (Literal (Str ''5'')))
       (Ref 0) None [] \<lparr>heap = [Object []], entropy = sys0\<rparr>)
     = Inr (Str ''05'', Ref 0, [(''x'', Str ''05'')], [Object []])"
  by code_simp

text \<open>The knowledge half of the same claim holds: \<^verbatim>\<open>$$.day += 1\<close> against \<open>{}\<close> stores 1.\<close>

lemma add_to_absent_property:
  "execution_result (execute 10 ex_add_knowledge (Ref 0) (Some 1) [Object []] sys0)
     = Inr (Str ''1'', Ref 2, [Object [], Object [], Object [(''day'', Num (Fin 1))]])"
  by code_simp

subsection \<open>Conditional without an else branch\<close>




subsection \<open>Weighted selection of an alternative\<close>








subsection \<open>Spacing of the concatenated text\<close>






subsection \<open>Assignment to a knowledge path that does not exist yet\<close>








subsection \<open>Weights of parsed alternatives\<close>

lemma pow10_nonneg: "0 \<le> pow10 e"
  by (simp add: pow10_def)

lemma parseFloat_nonneg: "parseFloat s = Inr q \<Longrightarrow> 0 \<le> q"
  by (auto simp: parseFloat_def parse_unsigned_decimal_def Let_def pow10_nonneg
      split: jsnum.splits if_splits option.splits)

lemma check_in_range: "check ts i t \<Longrightarrow> i < length ts"
  by (auto simp: check_def isAtEnd_def peek_def eof_token_def createToken_def split: if_splits)

lemma marked_weightI:
  "check ts i DOUBLE_COLON \<Longrightarrow> check ts (i + 1) NUMBER
    \<Longrightarrow> parseFloat (text_of (peek ts (i + 1))) = Inr wt \<Longrightarrow> marked_weight ts wt"
  unfolding marked_weight_def list_ex_iff
  using check_in_range [of ts i DOUBLE_COLON] by (intro bexI [of _ i]) auto


lemma elements_loop_weight:
  "elements_loop n ts cur els = Inr (els', wt, cur') \<Longrightarrow> weight_ok ts wt"
proof (induction n ts cur els rule: elements_loop.induct)
  case (1 ts cur els)
  then show ?case by simp
next
  case (2 n ts cur els)
  show ?case
  proof (cases "isAtEnd ts cur \<or> check ts cur PIPE \<or> isStartOfNextRule ts cur")
    case True
    with "2.prems" show ?thesis
      by (simp add: weight_ok_def)
  next
    case stop: False
    show ?thesis
    proof (cases "check ts cur NEWLINE")
      case True
      with stop "2.prems" "2.IH"(1) show ?thesis
        by simp
    next
      case nl: False
      show ?thesis
      proof (cases "parseElement ts cur")
        case (Inl e)
        with stop nl "2.prems" show ?thesis by simp
      next
        case (Inr res)
        obtain el cur1 where res: "res = (el, cur1)"
          by (cases res) auto
        show ?thesis
        proof (cases "check ts cur1 DOUBLE_COLON")
          case dc: True
          show ?thesis
          proof (cases "check ts (cur1 + 1) NUMBER")
            case True
            with stop nl Inr res dc "2.prems"
            have pf: "parseFloat (text_of (peek ts (cur1 + 1))) = Inr wt"
              by (auto split: sum.splits)
            show ?thesis
              unfolding weight_ok_def
              using parseFloat_nonneg [OF pf] marked_weightI [OF dc True pf] by simp
          next
            case False
            with stop nl Inr res dc "2.prems" "2.IH"(2) show ?thesis
              by simp
          qed
        next
          case False
          with stop nl Inr res "2.prems" "2.IH"(3) show ?thesis
            by simp
        qed
      qed
    qed
  qed
qed

lemma parseAlternative_weight:
  "parseAlternative ts cur = Inr (a, cur') \<Longrightarrow> weight_ok ts (weight a)"
proof -
  assume p: "parseAlternative ts cur = Inr (a, cur')"
  then obtain els wt where l: "elements_loop (length ts) ts cur [] = Inr (els, wt, cur')"
    and a: "a = Alternative els wt"
    by (auto simp: parseAlternative_def split: sum.splits if_splits)
  show ?thesis
    using elements_loop_weight [OF l] a by simp
qed

lemma alternatives_loop_weight:
  "alternatives_loop n ts cur alts = Inr (alts', cur')
    \<Longrightarrow> \<forall>a \<in> set alts. weight_ok ts (weight a)
    \<Longrightarrow> \<forall>a \<in> set alts'. weight_ok ts (weight a)"
proof (induction n ts cur alts rule: alternatives_loop.induct)
  case (1 ts cur alts)
  then show ?case by simp
next
  case (2 n ts cur alts)
  show ?case
  proof (cases "check ts cur PIPE")
    case False
    with "2.prems" show ?thesis by simp
  next
    case True
    show ?thesis
    proof (cases "parseAlternative ts (cur + 1)")
      case (Inl e)
      with True "2.prems" show ?thesis by simp
    next
      case (Inr res)
      obtain a cur1 where res: "res = (a, cur1)"
        by (cases res) auto
      have "weight_ok ts (weight a)"
        using Inr res by (auto dest: parseAlternative_weight)
      with "2.prems"(2) have acc: "\<forall>b \<in> set (alts @ [a]). weight_ok ts (weight b)"
        by auto
      have step: "alternatives_loop n ts cur1 (alts @ [a]) = Inr (alts', cur')"
        using True Inr res "2.prems"(1) by simp
      show ?thesis
        by (rule "2.IH" [OF True Inr res [symmetric] step acc])
    qed
  qed
qed


lemma parseAlternatives_weight:
  "parseAlternatives ts cur = Inr (alts, cur') \<Longrightarrow> \<forall>a \<in> set alts. weight_ok ts (weight a)"
proof -
  assume p: "parseAlternatives ts cur = Inr (alts, cur')"
  then obtain a cur1 where a: "parseAlternative ts cur = Inr (a, cur1)"
    and l: "alternatives_loop (length ts) ts cur1 [a] = Inr (alts, cur')"
    by (auto simp: parseAlternatives_def split: sum.splits)
  have "\<forall>b \<in> set [a]. weight_ok ts (weight b)"
    using parseAlternative_weight [OF a] by simp
  then show ?thesis
    by (rule alternatives_loop_weight [OF l])
qed


lemma parseRule_weight: "parseRule ts cur = Inr (r, cur') \<Longrightarrow> rule_ok ts r"
  by (auto simp: parseRule_def rule_ok_def split: sum.splits dest!: parseAlternatives_weight)

lemma alist_set_cases: "(k, v) \<in> set (alist_set key x al) \<Longrightarrow> v = x \<or> (k, v) \<in> set al"
  by (induction al) (auto split: if_splits)

lemma parse_loop_weight:
  "parse_loop n ts cur rules = Inr g \<Longrightarrow> \<forall>(nm, r) \<in> set rules. rule_ok ts r
    \<Longrightarrow> \<forall>(nm, r) \<in> set g. rule_ok ts r"
proof (induction n ts cur rules rule: parse_loop.induct)
  case (1 ts cur rules)
  then show ?case by simp
next
  case (2 n ts cur rules)
  define cur1 where "cur1 = skipNewlines (length ts) ts cur"
  show ?case
  proof (cases "isAtEnd ts cur \<or> isAtEnd ts cur1")
    case True
    with "2.prems" show ?thesis
      by (auto simp: cur1_def Let_def split: if_splits)
  next
    case False
    then have e1: "\<not> isAtEnd ts cur" and e2: "\<not> isAtEnd ts cur1"
      by auto
    show ?thesis
    proof (cases "parseRule ts cur1")
      case (Inl e)
      with e1 e2 "2.prems" show ?thesis
        by (simp add: cur1_def)
    next
      case (Inr res)
      obtain r cur2 where res: "res = (r, cur2)"
        by (cases res) auto
      have r: "rule_ok ts r"
        using Inr res by (auto dest: parseRule_weight)
      have acc: "\<forall>(nm, q) \<in> set (alist_set (name r) r rules). rule_ok ts q"
        using r "2.prems"(2) by (auto dest: alist_set_cases)
      have step: "parse_loop n ts cur2 (alist_set (name r) r rules) = Inr g"
        using e1 e2 Inr res "2.prems"(1) by (simp add: cur1_def)
      show ?thesis
        by (rule "2.IH" [OF e1 cur1_def e2 Inr res [symmetric] step acc])
    qed
  qed
qed

text \<open>
  C5, amended.  Every alternative of every rule of a grammar that \<open>compile\<close> returns has a
  weight that is not negative: it is the default 1, or the value \<open>parseFloat\<close> gives for a
  number token that follows a \<open>::\<close> token of the input.  Number tokens are runs of digits
  with at most one fraction, so no sign can be written, and nothing in the parser compares
  the weight with zero.
\<close>

theorem parsed_weights:
  assumes "compile source = Inr g" and "(nm, r) \<in> set g" and "a \<in> set (alternatives r)"
  shows "0 \<le> weight a
    \<and> (weight a = 1 \<or> (\<exists>ts. tokenize source = Inr ts \<and> marked_weight ts (weight a)))"
proof -
  from assms(1) obtain ts where ts: "tokenize source = Inr ts" and p: "parse ts = Inr g"
    by (auto simp: compile_def split: sum.splits)
  from p have "parse_loop (Suc (length ts)) ts 0 [] = Inr g"
    by (auto simp: parse_def split: sum.splits if_splits)
  then have "\<forall>(nm, r) \<in> set g. rule_ok ts r"
    by (rule parse_loop_weight) simp
  with assms(2,3) have "weight_ok ts (weight a)"
    by (auto simp: rule_ok_def)
  with ts show ?thesis
    by (auto simp: weight_ok_def)
qed

lemma ex_weighted_parse:
  "compile ''$start := one::1 | two::2 | three :: 3'' = Inr [(''start'', Rule ''start'' ex_weighted)]"
  by code_simp

theorem parsed_weights_witness:
  "0 \<le> weight (Alternative [Literal (Str ''two'')] 2)
    \<and> (\<exists>ts. tokenize ''$start := one::1 | two::2 | three :: 3'' = Inr ts \<and> marked_weight ts 2)"
proof -
  have r: "(''start'', Rule ''start'' ex_weighted) \<in> set [(''start'', Rule ''start'' ex_weighted)]"
    by simp
  have a: "Alternative [Literal (Str ''two'')] 2 \<in> set (alternatives (Rule ''start'' ex_weighted))"
    by (simp add: ex_weighted_def)
  show ?thesis
    using parsed_weights [OF ex_weighted_parse r a] by simp
qed

text \<open>
  C5 as the spec states it (every parsed weight is strictly positive, a marker
  \<open>::0\<close> is rejected) does not hold: \<^verbatim>\<open>$start := a ::0 | b\<close> compiles, and its first
  alternative has weight 0.
\<close>

theorem zero_weight_accepted:
  "compile ''$start := a ::0 | b'' = Inr ex_zero_weight
   \<and> \<not> list_all (\<lambda>(nm, r). list_all (\<lambda>a. 0 < weight a) (alternatives r)) ex_zero_weight"
  by code_simp

subsection \<open>The caller's knowledge object\<close>




































end
